theory Spec2Isabelle
  imports Main "HOL-Library.Word"
begin

section \<open>Python values\<close>

text \<open>
  Python's \<open>int\<close> is unbounded: \<^typ>\<open>int\<close>. A Python \<open>float\<close> is only ever copied by
  the code below, never computed with, so it is kept as its IEEE-754 bit pattern: two
  floats are bit-identical exactly when the two words are equal.
\<close>

type_synonym py_float = "64 word"

datatype py_value = PyNone | PyBool bool | PyInt int | PyFloat py_float | PyStr string

text \<open>A \<open>dict\<close> with string keys whose entries are only read: an association list.\<close>

type_synonym py_dict = "(string \<times> py_value) list"

datatype error =
    ZeroDivisionError
  | TypeError
  | KeyError string
  | ValueError
  | IndexError

section \<open>Named axes\<close>

text \<open>
  Modelled from the spec: the named axis (\<open>haliax.Axis\<close>) is not in this file. By the
  glossary it is a tensor dimension identified by a symbolic name: a name and a size, as
  lines 74-81 construct it. \<open>alias\<close> (line 75) gives the same size another name,
  \<open>resize\<close> (line 188) gives the same name another size.
\<close>

datatype Axis = Axis (name: string) (size_of: int)

definition Axis_alias :: "Axis \<Rightarrow> string \<Rightarrow> Axis" where
  "Axis_alias ax new_name = Axis new_name (size_of ax)"

definition Axis_resize :: "Axis \<Rightarrow> int \<Rightarrow> Axis" where
  "Axis_resize ax new_size = Axis (name ax) new_size"

section \<open>The configuration record\<close>

text \<open>
  \<open>MistralConfig\<close> (mistral.py, lines 33-71): a frozen dataclass. Fields are typed as the
  annotations say. Nothing in the class body checks a relation between fields.
\<close>

record MistralConfig =
  seq_len :: int
  hidden_dim :: int
  intermediate_dim :: int
  num_layers :: int
  num_heads :: int
  num_kv_heads :: int
  activation_function :: string
  initializer_range :: py_float
  layer_norm_epsilon :: py_float
  sliding_window :: int
  upcast_attn :: bool
  use_flash_attention :: bool
  flash_attention_block_size :: "int option"
  gradient_checkpointing :: bool
  gradient_checkpointing_block_size :: int
  use_bias :: bool
  rope_scaling :: "py_dict option"

text \<open>The defaults of lines 51-71; \<open>0.02\<close> and \<open>1e-6\<close> as doubles.\<close>

definition MistralConfig_defaults :: MistralConfig where
  "MistralConfig_defaults =
     \<lparr> seq_len = 8192, hidden_dim = 4096, intermediate_dim = 14336, num_layers = 32,
       num_heads = 32, num_kv_heads = 8, activation_function = ''silu'',
       initializer_range = 0x3F947AE147AE147B, layer_norm_epsilon = 0x3EB0C6F7A0B5ED8D,
       sliding_window = 4096, upcast_attn = False, use_flash_attention = False,
       flash_attention_block_size = None, gradient_checkpointing = True,
       gradient_checkpointing_block_size = 5, use_bias = False, rope_scaling = None \<rparr>"

subsection \<open>Derived axes (lines 74-81)\<close>

definition Pos :: "MistralConfig \<Rightarrow> Axis" where
  "Pos self = Axis ''position'' (seq_len self)"

definition KeyPos :: "MistralConfig \<Rightarrow> Axis" where
  "KeyPos self = Axis_alias (Pos self) ''key_position''"

definition Embed :: "MistralConfig \<Rightarrow> Axis" where
  "Embed self = Axis ''embed'' (hidden_dim self)"

definition Heads :: "MistralConfig \<Rightarrow> Axis" where
  "Heads self = Axis ''heads'' (num_heads self)"

definition KVHeads :: "MistralConfig \<Rightarrow> Axis" where
  "KVHeads self = Axis ''kv_heads'' (num_kv_heads self)"

definition Layers :: "MistralConfig \<Rightarrow> Axis" where
  "Layers self = Axis ''layers'' (num_layers self)"

definition Mlp :: "MistralConfig \<Rightarrow> Axis" where
  "Mlp self = Axis ''mlp'' (intermediate_dim self)"

text \<open>
  \<open>hidden_dim // num_heads\<close>: Python's floor division, which is \<open>div\<close> on \<^typ>\<open>int\<close>, and
  which raises on a zero divisor.
\<close>

definition HeadSize :: "MistralConfig \<Rightarrow> error + Axis" where
  "HeadSize self =
     (if num_heads self = 0 then Inl ZeroDivisionError
      else Inr (Axis ''head_size'' (hidden_dim self div num_heads self)))"

subsection \<open>The external configuration\<close>

text \<open>
  The fields of the HuggingFace configuration that this file reads or writes. Keyword
  arguments the constructor is given beyond them are kept in \<open>hf_extra\<close>.
\<close>

record HfMistralConfig =
  max_position_embeddings :: int
  hidden_size :: int
  intermediate_size :: int
  num_hidden_layers :: int
  num_attention_heads :: int
  num_key_value_heads :: int
  hidden_act :: string
  hf_initializer_range :: py_float
  rms_norm_eps :: py_float
  hf_sliding_window :: int
  hf_vocab_size :: int
  hf_extra :: py_dict

text \<open>\<open>from_hf_config\<close> (lines 93-106): ten keywords, the other fields take their defaults.\<close>

definition from_hf_config :: "HfMistralConfig \<Rightarrow> MistralConfig" where
  "from_hf_config hf_config =
     MistralConfig_defaults
       \<lparr> seq_len := max_position_embeddings hf_config,
         hidden_dim := hidden_size hf_config,
         intermediate_dim := intermediate_size hf_config,
         num_layers := num_hidden_layers hf_config,
         num_heads := num_attention_heads hf_config,
         num_kv_heads := num_key_value_heads hf_config,
         activation_function := hidden_act hf_config,
         initializer_range := hf_initializer_range hf_config,
         layer_norm_epsilon := rms_norm_eps hf_config,
         sliding_window := hf_sliding_window hf_config \<rparr>"

text \<open>
  \<open>to_hf_config\<close> (lines 108-134). The call passes eleven keywords and then
  \<open>**config_overrides\<close>: Python raises \<open>TypeError\<close> when an override repeats one of the
  eleven keywords, so an override can add a field and never replace one of these.
\<close>

definition to_hf_config_keywords :: "string list" where
  "to_hf_config_keywords =
     [''max_position_embeddings'', ''hidden_size'', ''intermediate_size'',
      ''num_hidden_layers'', ''num_attention_heads'', ''num_key_value_heads'',
      ''hidden_act'', ''initializer_range'', ''rms_norm_eps'', ''sliding_window'',
      ''vocab_size'']"

definition to_hf_config :: "MistralConfig \<Rightarrow> int \<Rightarrow> py_dict option \<Rightarrow> error + HfMistralConfig" where
  "to_hf_config self vocab_size_arg config_overrides =
     (let overrides = (case config_overrides of None \<Rightarrow> [] | Some d \<Rightarrow> d) in
      if list_ex (\<lambda>k. k \<in> set to_hf_config_keywords) (map fst overrides) then Inl TypeError
      else Inr
        \<lparr> max_position_embeddings = seq_len self,
          hidden_size = hidden_dim self,
          intermediate_size = intermediate_dim self,
          num_hidden_layers = num_layers self,
          num_attention_heads = num_heads self,
          num_key_value_heads = num_kv_heads self,
          hidden_act = activation_function self,
          hf_initializer_range = initializer_range self,
          rms_norm_eps = layer_norm_epsilon self,
          hf_sliding_window = sliding_window self,
          hf_vocab_size = vocab_size_arg,
          hf_extra = overrides \<rparr>)"

text \<open>The shared field subset of the two schemas, in the external schema's order.\<close>

definition shared_fields ::
  "HfMistralConfig \<Rightarrow> int \<times> int \<times> int \<times> int \<times> int \<times> int \<times> string \<times> py_float \<times> py_float \<times> int" where
  "shared_fields hf =
     (max_position_embeddings hf, hidden_size hf, intermediate_size hf, num_hidden_layers hf,
      num_attention_heads hf, num_key_value_heads hf, hidden_act hf, hf_initializer_range hf,
      rms_norm_eps hf, hf_sliding_window hf)"

section \<open>Arrays\<close>

text \<open>
  An array of the array library: its shape and its elements in row-major order. The
  element type is a parameter: the code below moves elements and never computes with them,
  so equality of elements is bit-identity. A well-formed array has as many elements as its
  shape says.
\<close>

record 'a ndarray =
  shape :: "nat list"
  data :: "'a list"

definition wf_ndarray :: "'a ndarray \<Rightarrow> bool" where
  "wf_ndarray a = (length (data a) = prod_list (shape a))"

text \<open>The transpose of an \<open>r\<close> by \<open>c\<close> matrix stored row-major: a \<open>c\<close> by \<open>r\<close> matrix.\<close>

definition transpose2 :: "nat \<Rightarrow> nat \<Rightarrow> 'a list \<Rightarrow> 'a list" where
  "transpose2 r c xs = map (\<lambda>k. xs ! ((k mod r) * c + k div r)) [0..<r * c]"

definition transpose_nd :: "'a ndarray \<Rightarrow> 'a ndarray" where
  "transpose_nd a =
     (case shape a of
        [r, c] \<Rightarrow> \<lparr> shape = [c, r], data = transpose2 r c (data a) \<rparr>
      | _ \<Rightarrow> a)"

text \<open>
  Modelled from the spec: the named-axis array (\<open>haliax.NamedArray\<close>) is not in this file.
  By the glossary a named axis is a tensor dimension identified by a symbolic name: the
  array carries one axis for each dimension.
\<close>

record 'a NamedArray =
  array :: "'a ndarray"
  axes :: "Axis list"

text \<open>
  Modelled from the spec: the checked constructor of a named array (\<open>haliax.named\<close>) is not
  in this file. Axis names identify dimensions, so they are unique, and by the spec's
  section 7 a tensor whose shape disagrees with the declared axes is a fatal failure.
\<close>

definition named :: "'a ndarray \<Rightarrow> Axis list \<Rightarrow> error + 'a NamedArray" where
  "named a axs =
     (if \<not> distinct (map name axs) then Inl ValueError
      else if map int (shape a) \<noteq> map size_of axs then Inl ValueError
      else Inr \<lparr> array = a, axes = axs \<rparr>)"

text \<open>What the constructor guarantees of every named array it returns.\<close>

definition wf_NamedArray :: "'a NamedArray \<Rightarrow> bool" where
  "wf_NamedArray x =
     (distinct (map name (axes x)) \<and> map int (shape (array x)) = map size_of (axes x) \<and>
      wf_ndarray (array x))"

text \<open>The position of the axis called \<open>n\<close>: an axis is resolved by its name.\<close>

fun axis_index :: "string \<Rightarrow> Axis list \<Rightarrow> nat option" where
  "axis_index n [] = None"
| "axis_index n (a # as) =
     (if name a = n then Some 0 else map_option Suc (axis_index n as))"

section \<open>What this file takes from its libraries\<close>

text \<open>
  Modelled from the spec: the class \<open>LlamaEmbedding\<close> of \<open>levanter.models.llama\<close> is not
  in this file. It is the embedding table of the spec's data model: a table with the
  vocabulary axis kept beside it (line 156 reads that axis).
\<close>

record 'a LlamaEmbedding =
  Vocab_emb :: Axis
  token_embeddings :: "'a NamedArray"

text \<open>
  The pseudo-random generator, the numerics of padding, the transformer stack of
  \<open>levanter.models.llama\<close> and the checkpoint entries of the transformer and of the
  embedding are not part of this file; the model takes them as parameters. A key of the
  generator is opaque, and so is a transformer (\<open>'t\<close>). A state dict maps dotted string
  keys to plain arrays.
\<close>

type_synonym PRNGKey = nat

type_synonym 'a StateDict = "string \<rightharpoonup> 'a ndarray"

record ('a, 't) library =
  split :: "PRNGKey \<Rightarrow> PRNGKey \<times> PRNGKey"
  normal :: "PRNGKey \<Rightarrow> nat \<Rightarrow> 'a"
  padding :: "PRNGKey option \<Rightarrow> 'a NamedArray \<Rightarrow> nat \<Rightarrow> 'a"
  LlamaTransformer_init :: "MistralConfig \<Rightarrow> PRNGKey \<Rightarrow> error + 't"
  LlamaTransformer_update_state_dict :: "'t \<Rightarrow> 'a StateDict \<Rightarrow> string option \<Rightarrow> 'a StateDict"
  LlamaTransformer_from_state_dict :: "'t \<Rightarrow> 'a StateDict \<Rightarrow> string option \<Rightarrow> error + 't"
  LlamaEmbedding_update_state_dict ::
    "'a LlamaEmbedding \<Rightarrow> 'a StateDict \<Rightarrow> string option \<Rightarrow> 'a StateDict"
  LlamaEmbedding_from_state_dict ::
    "'a LlamaEmbedding \<Rightarrow> 'a StateDict \<Rightarrow> string option \<Rightarrow> error + 'a LlamaEmbedding"

text \<open>\<open>maybe_rng_split(key, 2)\<close> (lines 181 and 189): no key gives no keys.\<close>

definition maybe_rng_split :: "('a, 't) library \<Rightarrow> PRNGKey option \<Rightarrow> PRNGKey option \<times> PRNGKey option" where
  "maybe_rng_split L key =
     (case key of
        None \<Rightarrow> (None, None)
      | Some k \<Rightarrow> (Some (fst (split L k)), Some (snd (split L k))))"

text \<open>
  Modelled from the spec: the random initialiser of the array library
  (\<open>hax.random.normal\<close>) is not in this file. It returns a fresh named array over the
  given axes, its elements drawn from the key; an array cannot have a negative dimension
  (a fatal construction-time failure, section 7).
\<close>

definition random_normal :: "('a, 't) library \<Rightarrow> PRNGKey \<Rightarrow> Axis list \<Rightarrow> error + 'a NamedArray" where
  "random_normal L key axs =
     (if list_ex (\<lambda>a. size_of a < 0) axs then Inl ValueError
      else named
        \<lparr> shape = map (\<lambda>a. nat (size_of a)) axs,
          data = map (normal L key) [0..<prod_list (map (\<lambda>a. nat (size_of a)) axs)] \<rparr> axs)"

subsection \<open>Resizing an axis\<close>

text \<open>
  The elements of an array resized along dimension \<open>i\<close>. The array is \<open>outer\<close> blocks of
  \<open>old\<close> slices of \<open>inner\<close> elements each; every block keeps its first \<open>min old new\<close> slices
  and, when it grows, is followed by its share of the padding.
\<close>

definition resized_data :: "nat \<Rightarrow> nat \<Rightarrow> nat \<Rightarrow> nat \<Rightarrow> (nat \<Rightarrow> 'a) \<Rightarrow> 'a list \<Rightarrow> 'a list" where
  "resized_data outer old new inner pad xs =
     concat (map (\<lambda>b. take (min old new * inner) (drop (b * old * inner) xs)
                        @ map pad [b * ((new - old) * inner)..<Suc b * ((new - old) * inner)])
                 [0..<outer])"

text \<open>
  Modelled from the spec: \<open>haliax.tree_util.resize_axis\<close> is not in this file. By the
  spec's property 4 resizing to a new size makes the resized dimension exactly that size
  and leaves all other dimensions unchanged. The dimension is the one whose axis has the
  name of \<open>old_axis\<close>; an array without such an axis has nothing to resize and is returned
  as it is, and so is one that already has the size; a larger one is cut, a smaller one
  padded.
\<close>

definition resize_axis ::
  "('a, 't) library \<Rightarrow> 'a NamedArray \<Rightarrow> Axis \<Rightarrow> int \<Rightarrow> PRNGKey option \<Rightarrow> error + 'a NamedArray" where
  "resize_axis L x old_axis new_size key =
     (case axis_index (name old_axis) (axes x) of
        None \<Rightarrow> Inr x
      | Some i \<Rightarrow>
          let current_axis = axes x ! i in
          if new_size = size_of current_axis then Inr x
          else if new_size < 0 then Inl ValueError
          else Inr
            \<lparr> array =
                \<lparr> shape = (shape (array x))[i := nat new_size],
                  data = resized_data (prod_list (take i (shape (array x))))
                           (shape (array x) ! i) (nat new_size)
                           (prod_list (drop (Suc i) (shape (array x))))
                           (padding L key x) (data (array x)) \<rparr>,
              axes = (axes x)[i := Axis_resize current_axis new_size] \<rparr>)"

section \<open>The building blocks of the model\<close>

text \<open>
  Modelled from the spec: the linear layer of the array library (\<open>haliax.nn.Linear\<close>) is
  not in this file. It is the output projection of the spec's data model, as line 163
  builds it: one input axis, one output axis, a weight over the two and an optional bias.
\<close>

record 'a Linear =
  weight :: "'a NamedArray"
  bias :: "'a NamedArray option"
  In :: Axis
  Out :: Axis

text \<open>
  Modelled from the spec: \<open>haliax.nn.Linear.init\<close> is not in this file. By the spec's
  property 3 the projection built with the hidden axis as input and the vocabulary axis as
  output has a weight of (vocabulary size x hidden size): with \<open>out_first\<close> the output
  axis comes first, without it the input axis does.
\<close>

definition Linear_init ::
  "('a, 't) library \<Rightarrow> Axis \<Rightarrow> Axis \<Rightarrow> PRNGKey \<Rightarrow> bool \<Rightarrow> bool \<Rightarrow> error + 'a Linear" where
  "Linear_init L In_arg Out_arg key use_bias_arg out_first_arg =
     (case random_normal L key (if out_first_arg then [Out_arg, In_arg] else [In_arg, Out_arg]) of
        Inl e \<Rightarrow> Inl e
      | Inr w \<Rightarrow>
          (case (if use_bias_arg then map_sum id Some (random_normal L key [Out_arg]) else Inr None) of
             Inl e \<Rightarrow> Inl e
           | Inr b \<Rightarrow> Inr \<lparr> weight = w, bias = b, In = In_arg, Out = Out_arg \<rparr>))"

text \<open>
  Modelled from the spec: the property \<open>out_first\<close> of the linear layer is not in this
  file. It tells which of the two layout conventions of the spec's section 4 the weight
  has: the output axis is first when the last axis of the weight is not the output axis.
\<close>

definition out_first :: "'a Linear \<Rightarrow> error + bool" where
  "out_first layer =
     (if axes (weight layer) = [] then Inl IndexError
      else Inr (last (axes (weight layer)) \<noteq> Out layer))"

text \<open>A well-formed layer: a well-formed weight over exactly its two axes, in either order.\<close>

definition wf_Linear :: "'a Linear \<Rightarrow> bool" where
  "wf_Linear layer =
     (wf_NamedArray (weight layer) \<and>
      (axes (weight layer) = [Out layer, In layer] \<or> axes (weight layer) = [In layer, Out layer]))"

text \<open>
  Modelled from the spec: \<open>LlamaEmbedding.init\<close> of \<open>levanter.models.llama\<close> is not in this
  file. The table of the spec's data model is drawn over the vocabulary axis and the
  hidden axis, and the vocabulary axis is kept beside it.
\<close>

definition LlamaEmbedding_init ::
  "('a, 't) library \<Rightarrow> Axis \<Rightarrow> MistralConfig \<Rightarrow> PRNGKey \<Rightarrow> error + 'a LlamaEmbedding" where
  "LlamaEmbedding_init L Vocab_arg config key =
     (case random_normal L key [Vocab_arg, Embed config] of
        Inl e \<Rightarrow> Inl e
      | Inr t \<Rightarrow> Inr \<lparr> Vocab_emb = Vocab_arg, token_embeddings = t \<rparr>)"

text \<open>
  Modelled from the spec: \<open>LlamaEmbedding.resize_embeddings\<close> of \<open>levanter.models.llama\<close>
  is not in this file. By the spec's property 4 it sets the vocabulary dimension of the
  table to the new size and leaves the other dimension as it is; the axis kept beside
  the table is resized with it.
\<close>

definition resize_embeddings ::
  "('a, 't) library \<Rightarrow> 'a LlamaEmbedding \<Rightarrow> int \<Rightarrow> PRNGKey option \<Rightarrow> error + 'a LlamaEmbedding" where
  "resize_embeddings L self new_size key =
     (case resize_axis L (token_embeddings self) (Vocab_emb self) new_size key of
        Inl e \<Rightarrow> Inl e
      | Inr new_weights \<Rightarrow>
          Inr (self\<lparr> Vocab_emb := Axis_resize (Vocab_emb self) new_size,
                     token_embeddings := new_weights \<rparr>))"

section \<open>The model\<close>

text \<open>\<open>MistralLMHeadModel\<close> (lines 141-156): three fields and two properties.\<close>

record ('a, 't) MistralLMHeadModel =
  transformer :: 't
  embeddings :: "'a LlamaEmbedding"
  lm_head :: "'a Linear"

definition Vocab :: "('a, 't) MistralLMHeadModel \<Rightarrow> Axis" where
  "Vocab self = Vocab_emb (embeddings self)"

definition vocab_size :: "('a, 't) MistralLMHeadModel \<Rightarrow> int" where
  "vocab_size self = size_of (Vocab self)"

text \<open>\<open>init\<close> (lines 158-164). The embedding and the output projection get the same key.\<close>

definition init ::
  "('a, 't) library \<Rightarrow> Axis \<Rightarrow> MistralConfig \<Rightarrow> PRNGKey \<Rightarrow> error + ('a, 't) MistralLMHeadModel" where
  "init L Vocab_arg config key =
     (let k_t = fst (split L key); k_emb = snd (split L key) in
      case LlamaTransformer_init L config k_t of
        Inl e \<Rightarrow> Inl e
      | Inr transformer_new \<Rightarrow>
          (case LlamaEmbedding_init L Vocab_arg config k_emb of
             Inl e \<Rightarrow> Inl e
           | Inr embeddings_new \<Rightarrow>
               (case Linear_init L (Embed config) Vocab_arg k_emb False True of
                  Inl e \<Rightarrow> Inl e
                | Inr lm_head_new \<Rightarrow>
                    Inr \<lparr> transformer = transformer_new, embeddings = embeddings_new,
                          lm_head = lm_head_new \<rparr>)))"

text \<open>\<open>resize_vocab\<close> (lines 187-194).\<close>

definition resize_vocab ::
  "('a, 't) library \<Rightarrow> ('a, 't) MistralLMHeadModel \<Rightarrow> int \<Rightarrow> PRNGKey option
     \<Rightarrow> error + ('a, 't) MistralLMHeadModel" where
  "resize_vocab L self new_size key =
     (let new_Vocab = Axis_resize (Vocab self) new_size;
          k1 = fst (maybe_rng_split L key); k2 = snd (maybe_rng_split L key) in
      case resize_embeddings L (embeddings self) new_size k1 of
        Inl e \<Rightarrow> Inl e
      | Inr new_embeddings \<Rightarrow>
          (case resize_axis L (weight (lm_head self)) (Vocab self) new_size k2 of
             Inl e \<Rightarrow> Inl e
           | Inr new_lm_matrix \<Rightarrow>
               let new_lm_head = (lm_head self)\<lparr> Out := new_Vocab, weight := new_lm_matrix \<rparr> in
               Inr (self\<lparr> embeddings := new_embeddings, lm_head := new_lm_head \<rparr>)))"

text \<open>
  The invariant of a model: the output axis of the projection is the vocabulary axis of the
  embedding, the projection's weight is a well-formed array over (output, input), and the
  table is a well-formed array over (vocabulary, hidden).
\<close>

definition model_invariant :: "('a, 't) MistralLMHeadModel \<Rightarrow> bool" where
  "model_invariant m =
     (Out (lm_head m) = Vocab m \<and>
      axes (weight (lm_head m)) = [Out (lm_head m), In (lm_head m)] \<and>
      wf_NamedArray (weight (lm_head m)) \<and>
      axes (token_embeddings (embeddings m)) = [Vocab m, In (lm_head m)] \<and>
      wf_NamedArray (token_embeddings (embeddings m)))"

text \<open>The models this file produces: by \<open>init\<close>, and by \<open>resize_vocab\<close> from one of them.\<close>

inductive produced :: "('a, 't) library \<Rightarrow> ('a, 't) MistralLMHeadModel \<Rightarrow> bool" for L where
  by_init: "init L Vocab_arg config key = Inr m \<Longrightarrow> produced L m"
| by_resize_vocab: "produced L m \<Longrightarrow> resize_vocab L m new_size key = Inr m' \<Longrightarrow> produced L m'"

section \<open>Checkpoint interchange\<close>

text \<open>
  Modelled from the spec: \<open>apply_prefix\<close> of \<open>levanter.compat.torch_serialization\<close> is not
  in this file. It is the prefix convention for nested sub-modules (spec, section 6):
  keys are dotted, and a missing prefix or a missing leaf leaves the other part alone.
\<close>

fun apply_prefix :: "string option \<Rightarrow> string option \<Rightarrow> string option" where
  "apply_prefix None leaf = leaf"
| "apply_prefix (Some p) None = Some p"
| "apply_prefix (Some p) (Some l) = Some (p @ ''.'' @ l)"

text \<open>\<open>_state_dict_key_map\<close> (lines 196-197).\<close>

definition state_dict_key_map :: "(string \<times> string option) list" where
  "state_dict_key_map = [(''transformer'', Some ''model''), (''embeddings'', None)]"

text \<open>
  Modelled from the spec: the use the serialization mixin makes of the key map is not in
  this file. A field is stored under the key the map gives it, a field the map does not
  name under its own name, below the prefix (the prefix convention of section 6).
\<close>

definition field_prefix :: "string option \<Rightarrow> string \<Rightarrow> string option" where
  "field_prefix prefix field =
     apply_prefix prefix
       (case map_of state_dict_key_map field of Some k \<Rightarrow> k | None \<Rightarrow> Some field)"

text \<open>One entry of a state dict, and reading one; a key that is not there is an error.\<close>

definition entry :: "string option \<Rightarrow> string \<Rightarrow> 'a ndarray \<Rightarrow> 'a StateDict" where
  "entry prefix leaf a =
     (case apply_prefix prefix (Some leaf) of None \<Rightarrow> Map.empty | Some k \<Rightarrow> [k \<mapsto> a])"

definition lookup :: "'a StateDict \<Rightarrow> string option \<Rightarrow> string \<Rightarrow> error + 'a ndarray" where
  "lookup state_dict prefix leaf =
     (case apply_prefix prefix (Some leaf) of
        None \<Rightarrow> Inl ValueError
      | Some k \<Rightarrow> (case state_dict k of None \<Rightarrow> Inl (KeyError k) | Some a \<Rightarrow> Inr a))"

text \<open>
  Modelled from the spec: \<open>flatten_linear_layers\<close> of
  \<open>levanter.compat.torch_serialization\<close> is not in this file. By the spec's section 4 it
  reshapes a linear layer's weight matrix between two fixed layout conventions, the axis
  order of the input and output dimensions, on save: the layer keeps its own order, the
  state dict has the output dimension first when \<open>out_dims_first_in_dict\<close> is set. The
  entries are keyed \<open>weight\<close> and \<open>bias\<close> under the prefix.
\<close>

definition flatten_linear_layers :: "string option \<Rightarrow> 'a Linear \<Rightarrow> bool \<Rightarrow> error + 'a StateDict" where
  "flatten_linear_layers prefix layer out_dims_first_in_dict =
     (let w = array (weight layer);
          b = (case bias layer of None \<Rightarrow> Map.empty | Some x \<Rightarrow> entry prefix ''bias'' (array x)) in
      if axes (weight layer) = [Out layer, In layer] then
        Inr (entry prefix ''weight'' (if out_dims_first_in_dict then w else transpose_nd w) ++ b)
      else if axes (weight layer) = [In layer, Out layer] then
        Inr (entry prefix ''weight'' (if out_dims_first_in_dict then transpose_nd w else w) ++ b)
      else Inl ValueError)"

text \<open>
  Modelled from the spec: \<open>unflatten_linear_layers\<close> of
  \<open>levanter.compat.torch_serialization\<close> is not in this file. By the spec's section 4 it
  is the reshape on load, from the state dict's layout to the layer's own. A missing
  weight and a shape that disagrees with the layer's axes are the fatal failures of the
  spec's section 7.
\<close>

definition unflatten_linear_layers ::
  "string option \<Rightarrow> 'a StateDict \<Rightarrow> 'a Linear \<Rightarrow> bool \<Rightarrow> error + 'a StateDict" where
  "unflatten_linear_layers prefix statedict layer out_dims_first_in_dict =
     (case lookup statedict prefix ''weight'' of
        Inl e \<Rightarrow> Inl e
      | Inr w \<Rightarrow>
          if length (shape w) \<noteq> 2 then Inl ValueError
          else
            (case out_first layer of
               Inl e \<Rightarrow> Inl e
             | Inr layer_out_first \<Rightarrow>
                 let w2 = (if out_dims_first_in_dict = layer_out_first then w else transpose_nd w) in
                 if map int (shape w2) \<noteq>
                      (if layer_out_first then [size_of (Out layer), size_of (In layer)]
                       else [size_of (In layer), size_of (Out layer)])
                 then Inl ValueError
                 else
                   (case lookup statedict prefix ''bias'' of
                      Inl e \<Rightarrow> Inr (entry prefix ''weight'' w2)
                    | Inr b \<Rightarrow>
                        if map int (shape b) \<noteq> [size_of (Out layer)] then Inl ValueError
                        else Inr (entry prefix ''weight'' w2 ++ entry prefix ''bias'' b))))"

text \<open>
  Modelled from the spec: the default export of \<open>StateDictSerializationMixin\<close> for a
  linear layer is not in this file. It writes the layer's arrays as they are, \<open>weight\<close>
  and, when the layer has one, \<open>bias\<close>, under the prefix.
\<close>

definition Linear_update_state_dict :: "'a Linear \<Rightarrow> 'a StateDict \<Rightarrow> string option \<Rightarrow> 'a StateDict" where
  "Linear_update_state_dict layer state_dict prefix =
     state_dict ++ entry prefix ''weight'' (array (weight layer))
       ++ (case bias layer of None \<Rightarrow> Map.empty | Some x \<Rightarrow> entry prefix ''bias'' (array x))"

text \<open>
  Modelled from the spec: the default import of \<open>StateDictSerializationMixin\<close> for a
  linear layer is not in this file. It reads the arrays back into the axes of the layer
  it is called on and builds a new layer; a missing key and a shape that disagrees with
  the axes are fatal.
\<close>

definition Linear_from_state_dict :: "'a Linear \<Rightarrow> 'a StateDict \<Rightarrow> string option \<Rightarrow> error + 'a Linear" where
  "Linear_from_state_dict layer state_dict prefix =
     (case lookup state_dict prefix ''weight'' of
        Inl e \<Rightarrow> Inl e
      | Inr a \<Rightarrow>
          (case named a (axes (weight layer)) of
             Inl e \<Rightarrow> Inl e
           | Inr w \<Rightarrow>
               (case bias layer of
                  None \<Rightarrow> Inr (layer\<lparr> weight := w \<rparr>)
                | Some x \<Rightarrow>
                    (case lookup state_dict prefix ''bias'' of
                       Inl e \<Rightarrow> Inl e
                     | Inr c \<Rightarrow>
                         (case named c (axes x) of
                            Inl e \<Rightarrow> Inl e
                          | Inr b \<Rightarrow> Inr (layer\<lparr> weight := w, bias := Some b \<rparr>))))))"

text \<open>
  Modelled from the spec: the default \<open>update_state_dict\<close> of
  \<open>StateDictSerializationMixin\<close> is not in this file. It goes through the fields of the
  model in their order, each under its key of the key map, and writes their entries into
  the mapping.
\<close>

definition mixin_update_state_dict ::
  "('a, 't) library \<Rightarrow> ('a, 't) MistralLMHeadModel \<Rightarrow> 'a StateDict \<Rightarrow> string option \<Rightarrow> 'a StateDict" where
  "mixin_update_state_dict L self state_dict prefix =
     (let d1 = LlamaTransformer_update_state_dict L (transformer self) state_dict
                 (field_prefix prefix ''transformer'');
          d2 = LlamaEmbedding_update_state_dict L (embeddings self) d1
                 (field_prefix prefix ''embeddings'')
      in Linear_update_state_dict (lm_head self) d2 (field_prefix prefix ''lm_head''))"

text \<open>
  Modelled from the spec: the default \<open>from_state_dict\<close> of \<open>StateDictSerializationMixin\<close>
  is not in this file. It goes through the fields of the model in their order, reads each
  from the mapping under its key of the key map, and builds a new model; the mapping is
  only read.
\<close>

definition mixin_from_state_dict ::
  "('a, 't) library \<Rightarrow> ('a, 't) MistralLMHeadModel \<Rightarrow> 'a StateDict \<Rightarrow> string option
     \<Rightarrow> error + ('a, 't) MistralLMHeadModel" where
  "mixin_from_state_dict L self state_dict prefix =
     (case LlamaTransformer_from_state_dict L (transformer self) state_dict
             (field_prefix prefix ''transformer'') of
        Inl e \<Rightarrow> Inl e
      | Inr t \<Rightarrow>
          (case LlamaEmbedding_from_state_dict L (embeddings self) state_dict
                  (field_prefix prefix ''embeddings'') of
             Inl e \<Rightarrow> Inl e
           | Inr em \<Rightarrow>
               (case Linear_from_state_dict (lm_head self) state_dict
                       (field_prefix prefix ''lm_head'') of
                  Inl e \<Rightarrow> Inl e
                | Inr l \<Rightarrow> Inr \<lparr> transformer = t, embeddings = em, lm_head = l \<rparr>)))"

subsection \<open>The two methods of this file, over a store of dictionaries\<close>

text \<open>
  A Python \<open>dict\<close> is a mutable object, and \<open>update_state_dict\<close> is handed one: the
  dictionaries live in a store, a reference is an index into it, \<open>copy()\<close> allocates at
  its end, and \<open>update\<close> overwrites a cell. Each method returns the store it leaves
  behind, also when it raises. The dictionary \<open>my_dict\<close> of \<open>update_state_dict\<close> is never
  shared, so it is kept as a value.
\<close>

type_synonym 'a store = "'a StateDict list"

text \<open>\<open>from_state_dict\<close> (lines 199-207).\<close>

definition from_state_dict ::
  "('a, 't) library \<Rightarrow> ('a, 't) MistralLMHeadModel \<Rightarrow> 'a store \<Rightarrow> nat \<Rightarrow> string option
     \<Rightarrow> 'a store \<times> (error + ('a, 't) MistralLMHeadModel)" where
  "from_state_dict L self st state_dict prefix =
     (let d = length st;
          st1 = st @ [st ! state_dict] in
      case unflatten_linear_layers (apply_prefix prefix (Some ''lm_head'')) (st1 ! state_dict)
             (lm_head self) True of
        Inl e \<Rightarrow> (st1, Inl e)
      | Inr u \<Rightarrow>
          let st2 = st1[d := (st1 ! d) ++ u] in
          (st2, mixin_from_state_dict L self (st2 ! d) prefix))"

text \<open>\<open>update_state_dict\<close> (lines 209-218).\<close>

definition update_state_dict ::
  "('a, 't) library \<Rightarrow> ('a, 't) MistralLMHeadModel \<Rightarrow> 'a store \<Rightarrow> nat \<Rightarrow> string option
     \<Rightarrow> 'a store \<times> (error + nat)" where
  "update_state_dict L self st state_dict prefix =
     (let my_dict = mixin_update_state_dict L self Map.empty prefix in
      case flatten_linear_layers (apply_prefix prefix (Some ''lm_head'')) (lm_head self) True of
        Inl e \<Rightarrow> (st, Inl e)
      | Inr flat \<Rightarrow>
          let my_dict2 = my_dict ++ flat in
          (st[state_dict := (st ! state_dict) ++ my_dict2], Inr state_dict))"

section \<open>All operations over one heap\<close>

text \<open>
  The forward computations of the three building blocks (looking tokens up in the table,
  the transformer stack, the linear map) are not part of this file; the model takes them
  as parameters. Token ids are integers, an attention mask is opaque (\<open>'k\<close>). Each may
  fail on mismatching shapes.
\<close>

record ('a, 't, 'k) forward =
  embed :: "'a LlamaEmbedding \<Rightarrow> int NamedArray \<Rightarrow> error + 'a NamedArray"
  LlamaTransformer_call ::
    "'t \<Rightarrow> 'a NamedArray \<Rightarrow> 'k option \<Rightarrow> PRNGKey option \<Rightarrow> error + 'a NamedArray"
  Linear_call :: "'a Linear \<Rightarrow> 'a NamedArray \<Rightarrow> PRNGKey option \<Rightarrow> error + 'a NamedArray"

text \<open>\<open>__call__\<close> (lines 166-185).\<close>

definition call ::
  "('a, 't, 'k) forward \<Rightarrow> ('a, 't) library \<Rightarrow> ('a, 't) MistralLMHeadModel \<Rightarrow> int NamedArray
     \<Rightarrow> 'k option \<Rightarrow> PRNGKey option \<Rightarrow> error + 'a NamedArray" where
  "call F L self input_ids attn_mask key =
     (let k_t = fst (maybe_rng_split L key); k_head = snd (maybe_rng_split L key) in
      case embed F (embeddings self) input_ids of
        Inl e \<Rightarrow> Inl e
      | Inr x \<Rightarrow>
          (case LlamaTransformer_call F (transformer self) x attn_mask k_t of
             Inl e \<Rightarrow> Inl e
           | Inr x2 \<Rightarrow> Linear_call F (lm_head self) x2 k_head))"

text \<open>
  The mutable objects an operation of this file can be handed: state dicts, dictionaries
  of overrides, and external configuration objects. They live in a heap, each kind in its
  own store; a reference is an index into the store of its kind. Models, internal
  configurations (frozen dataclasses), arrays, axes, keys, prefixes and integers are
  values. Each operation takes the heap and returns the heap it leaves behind with its
  result.
\<close>

record 'a heap =
  state_dicts :: "'a store"
  dicts :: "py_dict list"
  hf_configs :: "HfMistralConfig list"

text \<open>Every object of the first heap is in the second one, as it was.\<close>

definition unchanged :: "'a heap \<Rightarrow> 'a heap \<Rightarrow> bool" where
  "unchanged h h' =
     (take (length (state_dicts h)) (state_dicts h') = state_dicts h \<and>
      take (length (dicts h)) (dicts h') = dicts h \<and>
      take (length (hf_configs h)) (hf_configs h') = hf_configs h)"

text \<open>\<open>from_hf_config\<close> (lines 93-106) reads ten attributes of the object and writes none.\<close>

definition from_hf_config_on :: "'a heap \<Rightarrow> nat \<Rightarrow> 'a heap \<times> MistralConfig" where
  "from_hf_config_on h hf_config = (h, from_hf_config (hf_configs h ! hf_config))"

text \<open>
  \<open>to_hf_config\<close> (lines 108-134): without overrides it makes a new empty dictionary
  (line 119); it unpacks the dictionary into keywords, which reads it, and returns the
  configuration object the constructor allocates.
\<close>

definition to_hf_config_on ::
  "'a heap \<Rightarrow> MistralConfig \<Rightarrow> int \<Rightarrow> nat option \<Rightarrow> 'a heap \<times> (error + nat)" where
  "to_hf_config_on h self vocab_size_arg config_overrides =
     (let h1 = (case config_overrides of
                  None \<Rightarrow> h\<lparr> dicts := dicts h @ [[]] \<rparr>
                | Some r \<Rightarrow> h);
          overrides = (case config_overrides of None \<Rightarrow> length (dicts h) | Some r \<Rightarrow> r) in
      case to_hf_config self vocab_size_arg (Some (dicts h1 ! overrides)) of
        Inl e \<Rightarrow> (h1, Inl e)
      | Inr c \<Rightarrow> (h1\<lparr> hf_configs := hf_configs h1 @ [c] \<rparr>, Inr (length (hf_configs h1))))"

text \<open>
  The forward call and \<open>resize_vocab\<close> are handed values only: no argument of theirs is a
  reference.
\<close>

definition call_on ::
  "'a heap \<Rightarrow> ('a, 't, 'k) forward \<Rightarrow> ('a, 't) library \<Rightarrow> ('a, 't) MistralLMHeadModel
     \<Rightarrow> int NamedArray \<Rightarrow> 'k option \<Rightarrow> PRNGKey option \<Rightarrow> 'a heap \<times> (error + 'a NamedArray)" where
  "call_on h F L self input_ids attn_mask key = (h, call F L self input_ids attn_mask key)"

definition resize_vocab_on ::
  "'a heap \<Rightarrow> ('a, 't) library \<Rightarrow> ('a, 't) MistralLMHeadModel \<Rightarrow> int \<Rightarrow> PRNGKey option
     \<Rightarrow> 'a heap \<times> (error + ('a, 't) MistralLMHeadModel)" where
  "resize_vocab_on h L self new_size key = (h, resize_vocab L self new_size key)"

text \<open>The two state-dict methods touch the store of state dicts only.\<close>

definition from_state_dict_on ::
  "'a heap \<Rightarrow> ('a, 't) library \<Rightarrow> ('a, 't) MistralLMHeadModel \<Rightarrow> nat \<Rightarrow> string option
     \<Rightarrow> 'a heap \<times> (error + ('a, 't) MistralLMHeadModel)" where
  "from_state_dict_on h L self state_dict prefix =
     (h\<lparr> state_dicts := fst (from_state_dict L self (state_dicts h) state_dict prefix) \<rparr>,
      snd (from_state_dict L self (state_dicts h) state_dict prefix))"

definition update_state_dict_on ::
  "'a heap \<Rightarrow> ('a, 't) library \<Rightarrow> ('a, 't) MistralLMHeadModel \<Rightarrow> nat \<Rightarrow> string option
     \<Rightarrow> 'a heap \<times> (error + nat)" where
  "update_state_dict_on h L self state_dict prefix =
     (h\<lparr> state_dicts := fst (update_state_dict L self (state_dicts h) state_dict prefix) \<rparr>,
      snd (update_state_dict L self (state_dicts h) state_dict prefix))"

section \<open>Concrete instances\<close>

text \<open>
  A small library instance with natural numbers as elements: keys split deterministically,
  a sample is a function of key and position, padding is zero, the transformer is
  trivial, and the embedding stores its table under \<open>model.embed_tokens.weight\<close>.
\<close>

definition example_library :: "(nat, unit) library" where
  "example_library =
     \<lparr> split = (\<lambda>k. (2 * k + 1, 2 * k + 2)),
       normal = (\<lambda>k i. 10 * k + i),
       padding = (\<lambda>key x i. 0),
       LlamaTransformer_init = (\<lambda>c k. Inr ()),
       LlamaTransformer_update_state_dict = (\<lambda>t d p. d),
       LlamaTransformer_from_state_dict = (\<lambda>t d p. Inr t),
       LlamaEmbedding_update_state_dict =
         (\<lambda>e d p. d ++ entry p ''model.embed_tokens.weight'' (array (token_embeddings e))),
       LlamaEmbedding_from_state_dict =
         (\<lambda>e d p. case lookup d p ''model.embed_tokens.weight'' of
                     Inl er \<Rightarrow> Inl er
                   | Inr a \<Rightarrow> (case named a (axes (token_embeddings e)) of
                                Inl er \<Rightarrow> Inl er
                              | Inr w \<Rightarrow> Inr (e\<lparr> token_embeddings := w \<rparr>))) \<rparr>"

definition example_config :: MistralConfig where
  "example_config = MistralConfig_defaults\<lparr> hidden_dim := 2, num_heads := 1, num_kv_heads := 1 \<rparr>"

text \<open>A table of \<open>n\<close> rows over a hidden size of 2, and the model built on it.\<close>

definition example_table :: "nat list \<Rightarrow> nat \<Rightarrow> nat NamedArray" where
  "example_table xs n =
     \<lparr> array = \<lparr> shape = [n, 2], data = xs \<rparr>, axes = [Axis ''vocab'' (int n), Axis ''embed'' 2] \<rparr>"

definition example_model :: "nat list \<Rightarrow> nat \<Rightarrow> (nat, unit) MistralLMHeadModel" where
  "example_model xs n =
     \<lparr> transformer = (),
       embeddings = \<lparr> Vocab_emb = Axis ''vocab'' (int n), token_embeddings = example_table xs n \<rparr>,
       lm_head = \<lparr> weight = example_table xs n, bias = None, In = Axis ''embed'' 2,
                   Out = Axis ''vocab'' (int n) \<rparr> \<rparr>"

text \<open>A model whose output projection keeps its weight with the input axis first.\<close>

definition example_model_in_first :: "(nat, unit) MistralLMHeadModel" where
  "example_model_in_first =
     \<lparr> transformer = (),
       embeddings = \<lparr> Vocab_emb = Axis ''vocab'' 3,
                      token_embeddings = example_table [20, 21, 22, 23, 24, 25] 3 \<rparr>,
       lm_head = \<lparr> weight = \<lparr> array = \<lparr> shape = [2, 3], data = [1, 2, 3, 4, 5, 6] \<rparr>,
                              axes = [Axis ''embed'' 2, Axis ''vocab'' 3] \<rparr>,
                   bias = None, In = Axis ''embed'' 2, Out = Axis ''vocab'' 3 \<rparr> \<rparr>"

text \<open>
  A forward pass that hands arrays through, and a heap of one empty state dict, one
  dictionary of overrides and one external configuration.
\<close>

definition example_forward :: "(nat, unit, unit) forward" where
  "example_forward =
     \<lparr> embed = (\<lambda>e ids. Inr (token_embeddings e)),
       LlamaTransformer_call = (\<lambda>t x mask key. Inr x),
       Linear_call = (\<lambda>l x key. Inr (weight l)) \<rparr>"

definition example_heap :: "nat heap" where
  "example_heap =
     \<lparr> state_dicts = [Map.empty],
       dicts = [[(''rope_theta'', PyFloat 0)]],
       hf_configs = [\<lparr> max_position_embeddings = 32768, hidden_size = 4096,
                       intermediate_size = 14336, num_hidden_layers = 32,
                       num_attention_heads = 32, num_key_value_heads = 8, hidden_act = ''silu'',
                       hf_initializer_range = 0x3F947AE147AE147B,
                       rms_norm_eps = 0x3EB0C6F7A0B5ED8D, hf_sliding_window = 4096,
                       hf_vocab_size = 32000, hf_extra = [] \<rparr>] \<rparr>"

section \<open>Configuration translation\<close>

text \<open>
  Claim C6. \<open>from_hf_config\<close> is a one-to-one field copy: each of the ten shared internal
  fields equals its external field, whatever the value; \<open>seq_len\<close> is the external
  maximum-position value as it is, however large.
\<close>

theorem from_hf_config_copies_fields:
  "seq_len (from_hf_config hf) = max_position_embeddings hf \<and>
   hidden_dim (from_hf_config hf) = hidden_size hf \<and>
   intermediate_dim (from_hf_config hf) = intermediate_size hf \<and>
   num_layers (from_hf_config hf) = num_hidden_layers hf \<and>
   num_heads (from_hf_config hf) = num_attention_heads hf \<and>
   num_kv_heads (from_hf_config hf) = num_key_value_heads hf \<and>
   activation_function (from_hf_config hf) = hidden_act hf \<and>
   initializer_range (from_hf_config hf) = hf_initializer_range hf \<and>
   layer_norm_epsilon (from_hf_config hf) = rms_norm_eps hf \<and>
   sliding_window (from_hf_config hf) = hf_sliding_window hf"
  by (simp add: from_hf_config_def)

text \<open>
  \<open>to_hf_config\<close> returns unless an override repeats one of its keywords, and then its
  result carries the internal fields and the given vocabulary size.
\<close>

lemma to_hf_config_returns:
  "\<not> list_ex (\<lambda>k. k \<in> set to_hf_config_keywords)
        (map fst (case ov of None \<Rightarrow> [] | Some d \<Rightarrow> d)) \<Longrightarrow>
   \<exists>hf'. to_hf_config c v ov = Inr hf' \<and>
     shared_fields hf' =
       (seq_len c, hidden_dim c, intermediate_dim c, num_layers c, num_heads c, num_kv_heads c,
        activation_function c, initializer_range c, layer_norm_epsilon c, sliding_window c) \<and>
     hf_vocab_size hf' = v"
  by (simp add: to_hf_config_def shared_fields_def Let_def)

lemma to_hf_config_repeated_keyword:
  "to_hf_config c v (Some [(''hidden_size'', PyInt 1)]) = Inl TypeError"
  by (simp add: to_hf_config_def to_hf_config_keywords_def)

text \<open>
  Claim C2. For every external configuration and every vocabulary size, converting to the
  internal form and back (without overrides) returns a configuration whose shared
  fields are exactly the original ones.
\<close>

theorem hf_config_round_trip:
  "map_sum id shared_fields (to_hf_config (from_hf_config hf) v None) = Inr (shared_fields hf)"
  by (simp add: to_hf_config_def from_hf_config_def shared_fields_def)

text \<open>The same with overrides, as long as they repeat no keyword.\<close>

lemma hf_config_round_trip_overrides:
  assumes "\<not> list_ex (\<lambda>k. k \<in> set to_hf_config_keywords) (map fst d)"
  shows "map_sum id shared_fields (to_hf_config (from_hf_config hf) v (Some d))
           = Inr (shared_fields hf)"
  using assms by (simp add: to_hf_config_def from_hf_config_def shared_fields_def)

section \<open>The derived axes\<close>

lemma floor_div_exact: "(a::int) div b * b = a \<longleftrightarrow> b dvd a"
proof
  assume "a div b * b = a"
  then have "a = b * (a div b)" by (simp add: mult.commute)
  then show "b dvd a" by (rule dvdI)
next
  assume "b dvd a"
  then show "a div b * b = a" by simp
qed

text \<open>
  Claim C3 as stated fails: the record accepts a head count that does not divide the hidden
  size, and then the head size times the head count is not the hidden size. With
  \<open>hidden_dim = 10\<close> and \<open>num_heads = 3\<close> the head size is 3.
\<close>

theorem HeadSize_invariant_counterexample:
  "\<not> num_heads (MistralConfig_defaults\<lparr>hidden_dim := 10, num_heads := 3, num_kv_heads := 3\<rparr>)
       dvd hidden_dim (MistralConfig_defaults\<lparr>hidden_dim := 10, num_heads := 3, num_kv_heads := 3\<rparr>) \<and>
   HeadSize (MistralConfig_defaults\<lparr>hidden_dim := 10, num_heads := 3, num_kv_heads := 3\<rparr>)
     = Inr (Axis ''head_size'' 3) \<and>
   size_of (Axis ''head_size'' 3)
     * num_heads (MistralConfig_defaults\<lparr>hidden_dim := 10, num_heads := 3, num_kv_heads := 3\<rparr>)
     \<noteq> hidden_dim (MistralConfig_defaults\<lparr>hidden_dim := 10, num_heads := 3, num_kv_heads := 3\<rparr>)"
  by (simp add: HeadSize_def)

text \<open>
  Claim C3, amended. For every configuration the axes \<open>Pos\<close>, \<open>KeyPos\<close>, \<open>Embed\<close>,
  \<open>Heads\<close>, \<open>KVHeads\<close>, \<open>Layers\<close> and \<open>Mlp\<close> carry their names and the scalar fields as
  sizes. \<open>HeadSize\<close> raises when the head count is zero; otherwise its size is the floor
  of hidden size by head count, and that size times the head count is the hidden size
  exactly when the head count divides the hidden size.
\<close>

theorem derived_axes_agree:
  "Pos c = Axis ''position'' (seq_len c) \<and>
   KeyPos c = Axis ''key_position'' (seq_len c) \<and>
   Embed c = Axis ''embed'' (hidden_dim c) \<and>
   Heads c = Axis ''heads'' (num_heads c) \<and>
   KVHeads c = Axis ''kv_heads'' (num_kv_heads c) \<and>
   Layers c = Axis ''layers'' (num_layers c) \<and>
   Mlp c = Axis ''mlp'' (intermediate_dim c) \<and>
   (num_heads c = 0 \<longrightarrow> HeadSize c = Inl ZeroDivisionError) \<and>
   (num_heads c \<noteq> 0 \<longrightarrow>
      HeadSize c = Inr (Axis ''head_size'' (hidden_dim c div num_heads c)) \<and>
      (hidden_dim c div num_heads c * num_heads c = hidden_dim c
         \<longleftrightarrow> num_heads c dvd hidden_dim c))"
  by (simp add: Pos_def KeyPos_def Axis_alias_def Embed_def Heads_def KVHeads_def Layers_def
      Mlp_def HeadSize_def floor_div_exact)

theorem derived_axes_agree_witness:
  "num_heads MistralConfig_defaults \<noteq> 0 \<and>
   HeadSize MistralConfig_defaults = Inr (Axis ''head_size'' 128) \<and>
   128 * num_heads MistralConfig_defaults = hidden_dim MistralConfig_defaults \<and>
   num_heads MistralConfig_defaults dvd hidden_dim MistralConfig_defaults \<and>
   num_heads (MistralConfig_defaults\<lparr>num_heads := 0\<rparr>) = 0 \<and>
   HeadSize (MistralConfig_defaults\<lparr>num_heads := 0\<rparr>) = Inl ZeroDivisionError"
  using derived_axes_agree [of MistralConfig_defaults]
    derived_axes_agree [of "MistralConfig_defaults\<lparr>num_heads := 0\<rparr>"]
  by (simp add: MistralConfig_defaults_def)

section \<open>Arrays and axes\<close>

lemma named_Inr:
  "named a axs = Inr x \<Longrightarrow>
     array x = a \<and> axes x = axs \<and> distinct (map name axs) \<and> map int (shape a) = map size_of axs"
  by (auto simp: named_def split: if_splits)

lemma random_normal_Inr:
  assumes "random_normal L key axs = Inr x"
  shows "axes x = axs" and "shape (array x) = map (\<lambda>a. nat (size_of a)) axs"
    and "wf_NamedArray x" and "data (array x) = map (normal L key) [0..<prod_list (shape (array x))]"
  using assms
  by (auto simp: random_normal_def wf_NamedArray_def wf_ndarray_def list_ex_iff
      dest!: named_Inr split: if_splits)

lemma random_normal_returns:
  assumes "distinct (map name axs)" and "\<not> list_ex (\<lambda>a. size_of a < 0) axs"
  shows "\<exists>x. random_normal L key axs = Inr x"
proof -
  have "map int (map (\<lambda>a. nat (size_of a)) axs) = map size_of axs"
    using assms(2) by (auto simp: list_ex_iff)
  then show ?thesis
    using assms by (simp add: random_normal_def named_def)
qed

lemma Linear_init_Inr:
  assumes "Linear_init L i out key False True = Inr l"
  shows "In l = i" and "Out l = out" and "bias l = None" and "axes (weight l) = [out, i]"
    and "shape (array (weight l)) = [nat (size_of out), nat (size_of i)]"
    and "wf_NamedArray (weight l)"
  using assms
  by (auto simp: Linear_init_def split: sum.splits dest: random_normal_Inr)

lemma LlamaEmbedding_init_Inr:
  assumes "LlamaEmbedding_init L v c key = Inr e"
  shows "Vocab_emb e = v" and "axes (token_embeddings e) = [v, Embed c]"
    and "shape (array (token_embeddings e)) = [nat (size_of v), nat (hidden_dim c)]"
    and "wf_NamedArray (token_embeddings e)"
  using assms
  by (auto simp: LlamaEmbedding_init_def Embed_def split: sum.splits dest: random_normal_Inr)

lemma init_Inr:
  assumes "init L v c key = Inr m"
  shows "\<exists>t e l. m = \<lparr>transformer = t, embeddings = e, lm_head = l\<rparr> \<and>
           LlamaTransformer_init L c (fst (split L key)) = Inr t \<and>
           LlamaEmbedding_init L v c (snd (split L key)) = Inr e \<and>
           Linear_init L (Embed c) v (snd (split L key)) False True = Inr l"
  using assms by (auto simp: init_def Let_def split: sum.splits)

lemma axis_index_Some:
  "axis_index n axs = Some i \<Longrightarrow> i < length axs \<and> name (axs ! i) = n"
proof (induction axs arbitrary: i)
  case Nil
  then show ?case by simp
next
  case (Cons a axs)
  then show ?case by (auto split: if_splits)
qed

lemma length_concat_blocks:
  "(\<And>b. b < n \<Longrightarrow> length (f b) = c) \<Longrightarrow> length (concat (map f [0..<n])) = n * c"
  by (induction n) auto

lemma length_resized_data:
  assumes "length xs = outer * old * inner"
  shows "length (resized_data outer old new inner pad xs) = outer * new * inner"
proof -
  have block: "length (take (min old new * inner) (drop (b * old * inner) xs)
                 @ map pad [b * ((new - old) * inner)..<Suc b * ((new - old) * inner)])
               = new * inner" if "b < outer" for b
  proof -
    from that have "Suc b * (old * inner) \<le> outer * (old * inner)"
      by (intro mult_le_mono1) simp
    then have "old * inner \<le> length xs - b * old * inner"
      using assms by (simp add: algebra_simps)
    moreover have "min old new * inner \<le> old * inner" by simp
    ultimately have "min old new * inner \<le> length xs - b * old * inner"
      by linarith
    then have "length (take (min old new * inner) (drop (b * old * inner) xs))
        = min old new * inner" by (simp add: min_absorb2)
    moreover have "min old new * inner + (new - old) * inner = new * inner"
      by (cases "old \<le> new") (simp_all add: algebra_simps min_def flip: add_mult_distrib)
    moreover have "length (map pad [b * ((new - old) * inner)..<Suc b * ((new - old) * inner)])
        = (new - old) * inner" by simp
    ultimately show ?thesis by (simp only: length_append)
  qed
  have "length (concat (map (\<lambda>b. take (min old new * inner) (drop (b * old * inner) xs)
                 @ map pad [b * ((new - old) * inner)..<Suc b * ((new - old) * inner)])
               [0..<outer])) = outer * (new * inner)"
    by (rule length_concat_blocks) (rule block)
  then show ?thesis
    unfolding resized_data_def by (simp only: mult.assoc)
qed

lemma prod_list_nth_split:
  "i < length s \<Longrightarrow> prod_list s = prod_list (take i s) * (s ! i) * prod_list (drop (Suc i) s)"
  for s :: "nat list"
  by (subst id_take_nth_drop [of i s]) (simp_all add: mult.assoc)

lemma prod_list_update:
  "i < length s \<Longrightarrow> prod_list (s[i := n]) = prod_list (take i s) * n * prod_list (drop (Suc i) s)"
  for s :: "nat list"
  by (simp add: upd_conv_take_nth_drop mult.assoc)

lemma resize_axis_found:
  assumes wf: "wf_NamedArray x"
    and idx: "axis_index (name ax) (axes x) = Some i"
    and res: "resize_axis L x ax n key = Inr y"
  shows "0 \<le> n"
    and "axes y = (axes x)[i := Axis (name ax) n]"
    and "shape (array y) = (shape (array x))[i := nat n]"
    and "wf_NamedArray y"
proof -
  from idx have i: "i < length (axes x)" and nm: "name (axes x ! i) = name ax"
    by (auto dest: axis_index_Some)
  from wf have sh: "map int (shape (array x)) = map size_of (axes x)"
    and len: "length (data (array x)) = prod_list (shape (array x))"
    and dist: "distinct (map name (axes x))"
    by (auto simp: wf_NamedArray_def wf_ndarray_def)
  from sh have ls: "length (shape (array x)) = length (axes x)"
    by (metis length_map)
  from sh i ls have si: "int (shape (array x) ! i) = size_of (axes x ! i)"
    by (metis nth_map)
  show n0: "0 \<le> n"
    using res idx si by (auto simp: resize_axis_def Let_def split: if_splits)
  have same: "axes x ! i = Axis (name ax) n" if "n = size_of (axes x ! i)"
    using that nm by (cases "axes x ! i") simp
  show ax: "axes y = (axes x)[i := Axis (name ax) n]"
    using res idx nm same
    by (auto simp: resize_axis_def Let_def Axis_resize_def list_update_same_conv split: if_splits)
  have same_shape: "(shape (array x))[i := nat n] = shape (array x)" if "n = size_of (axes x ! i)"
  proof -
    from that si have "nat n = shape (array x) ! i" by simp
    then show ?thesis by simp
  qed
  show shp: "shape (array y) = (shape (array x))[i := nat n]"
    using res idx same_shape
    by (auto simp: resize_axis_def Let_def split: if_splits)
  have "map name (axes y) = map name (axes x)"
    using ax i nm by (simp add: map_update list_update_same_conv)
  then have d: "distinct (map name (axes y))" using dist by simp
  have m: "map int (shape (array y)) = map size_of (axes y)"
    using ax shp sh n0 by (simp add: map_update)
  have l: "length (data (array y)) = prod_list (shape (array y))"
  proof (cases "n = size_of (axes x ! i)")
    case True
    then have "y = x" using res idx by (simp add: resize_axis_def Let_def)
    then show ?thesis using len by simp
  next
    case False
    then have "data (array y) =
        resized_data (prod_list (take i (shape (array x)))) (shape (array x) ! i) (nat n)
          (prod_list (drop (Suc i) (shape (array x)))) (padding L key x) (data (array x))"
      using res idx n0 by (auto simp: resize_axis_def Let_def split: if_splits)
    moreover have "length (data (array x)) =
        prod_list (take i (shape (array x))) * (shape (array x) ! i)
          * prod_list (drop (Suc i) (shape (array x)))"
      using len i ls prod_list_nth_split [of i "shape (array x)"] by simp
    ultimately show ?thesis
      using i ls by (simp add: length_resized_data shp prod_list_update)
  qed
  show "wf_NamedArray y"
    using d m l by (simp add: wf_NamedArray_def wf_ndarray_def)
qed

lemma resize_axis_returns:
  assumes "0 \<le> n"
  shows "\<exists>y. resize_axis L x ax n key = Inr y"
  using assms by (simp add: resize_axis_def Let_def split: option.splits)

section \<open>Building and resizing the model\<close>

lemma init_invariant:
  assumes "init L v c key = Inr m"
  shows "model_invariant m" and "Vocab m = v" and "In (lm_head m) = Embed c"
proof -
  from init_Inr [OF assms] obtain t e l where
    m: "m = \<lparr>transformer = t, embeddings = e, lm_head = l\<rparr>" and
    e: "LlamaEmbedding_init L v c (snd (split L key)) = Inr e" and
    l: "Linear_init L (Embed c) v (snd (split L key)) False True = Inr l"
    by blast
  note E = LlamaEmbedding_init_Inr [OF e]
  note Li = Linear_init_Inr [OF l]
  show "Vocab m = v" by (simp add: m Vocab_def E(1))
  show "In (lm_head m) = Embed c" by (simp add: m Li(1))
  show "model_invariant m"
    by (simp add: model_invariant_def m Vocab_def E(1,2,4) Li(1,2,4,6))
qed

lemma init_returns:
  assumes "0 \<le> size_of v" and "0 \<le> hidden_dim c" and "name v \<noteq> ''embed''"
    and "LlamaTransformer_init L c (fst (split L key)) = Inr t"
  shows "\<exists>m. init L v c key = Inr m"
proof -
  have d: "distinct (map name [v, Embed c])" and n: "\<not> list_ex (\<lambda>a. size_of a < 0) [v, Embed c]"
    using assms by (auto simp: Embed_def)
  obtain x where x: "random_normal L (snd (split L key)) [v, Embed c] = Inr x"
    using random_normal_returns [OF d n] by blast
  then show ?thesis
    using assms(4) by (simp add: init_def Let_def LlamaEmbedding_init_def Linear_init_def)
qed

lemma resize_vocab_Inr:
  assumes "resize_vocab L m n key = Inr m'"
  shows "\<exists>e w. resize_embeddings L (embeddings m) n (fst (maybe_rng_split L key)) = Inr e \<and>
           resize_axis L (weight (lm_head m)) (Vocab m) n (snd (maybe_rng_split L key)) = Inr w \<and>
           m' = m\<lparr>embeddings := e,
                  lm_head := (lm_head m)\<lparr>Out := Axis_resize (Vocab m) n, weight := w\<rparr>\<rparr>"
  using assms by (auto simp: resize_vocab_def Let_def split: sum.splits)

lemma resize_embeddings_Inr:
  assumes "resize_embeddings L e n key = Inr e'"
  shows "\<exists>w. resize_axis L (token_embeddings e) (Vocab_emb e) n key = Inr w \<and>
           e' = e\<lparr>Vocab_emb := Axis_resize (Vocab_emb e) n, token_embeddings := w\<rparr>"
  using assms by (auto simp: resize_embeddings_def split: sum.splits)

lemma resize_vocab_returns:
  assumes "0 \<le> n"
  shows "\<exists>m'. resize_vocab L m n key = Inr m'"
proof -
  obtain w where w: "resize_axis L (token_embeddings (embeddings m)) (Vocab_emb (embeddings m)) n
      (fst (maybe_rng_split L key)) = Inr w"
    using resize_axis_returns [OF assms] by blast
  obtain w2 where w2: "resize_axis L (weight (lm_head m)) (Vocab m) n
      (snd (maybe_rng_split L key)) = Inr w2"
    using resize_axis_returns [OF assms] by blast
  show ?thesis
    using w w2 by (simp add: resize_vocab_def resize_embeddings_def Let_def)
qed

lemma resize_vocab_invariant:
  assumes inv: "model_invariant m" and res: "resize_vocab L m n key = Inr m'"
  shows "model_invariant m'"
    and "0 \<le> n"
    and "Vocab m' = Axis (name (Vocab m)) n"
    and "In (lm_head m') = In (lm_head m)"
    and "shape (array (weight (lm_head m'))) = (shape (array (weight (lm_head m))))[0 := nat n]"
    and "shape (array (token_embeddings (embeddings m')))
           = (shape (array (token_embeddings (embeddings m))))[0 := nat n]"
proof -
  from resize_vocab_Inr [OF res] obtain e w where
    e: "resize_embeddings L (embeddings m) n (fst (maybe_rng_split L key)) = Inr e" and
    w: "resize_axis L (weight (lm_head m)) (Vocab m) n (snd (maybe_rng_split L key)) = Inr w" and
    m': "m' = m\<lparr>embeddings := e,
                 lm_head := (lm_head m)\<lparr>Out := Axis_resize (Vocab m) n, weight := w\<rparr>\<rparr>"
    by blast
  from resize_embeddings_Inr [OF e] obtain t where
    t: "resize_axis L (token_embeddings (embeddings m)) (Vocab_emb (embeddings m)) n
          (fst (maybe_rng_split L key)) = Inr t" and
    e': "e = (embeddings m)\<lparr>Vocab_emb := Axis_resize (Vocab_emb (embeddings m)) n,
                            token_embeddings := t\<rparr>"
    by blast
  from inv have wfw: "wf_NamedArray (weight (lm_head m))"
    and axw: "axes (weight (lm_head m)) = [Vocab m, In (lm_head m)]"
    and wft: "wf_NamedArray (token_embeddings (embeddings m))"
    and axt: "axes (token_embeddings (embeddings m)) = [Vocab m, In (lm_head m)]"
    by (auto simp: model_invariant_def)
  have iw: "axis_index (name (Vocab m)) (axes (weight (lm_head m))) = Some 0"
    by (simp add: axw)
  have it: "axis_index (name (Vocab_emb (embeddings m))) (axes (token_embeddings (embeddings m)))
      = Some 0"
    by (simp add: axt Vocab_def)
  note W = resize_axis_found [OF wfw iw w]
  note T = resize_axis_found [OF wft it t]
  show "0 \<le> n" by (rule W(1))
  show v: "Vocab m' = Axis (name (Vocab m)) n"
    by (simp add: m' e' Vocab_def Axis_resize_def)
  show "In (lm_head m') = In (lm_head m)" by (simp add: m')
  show "shape (array (weight (lm_head m'))) = (shape (array (weight (lm_head m))))[0 := nat n]"
    using W(3) by (simp add: m')
  show "shape (array (token_embeddings (embeddings m')))
           = (shape (array (token_embeddings (embeddings m))))[0 := nat n]"
    using T(3) by (simp add: m' e')
  show "model_invariant m'"
    unfolding model_invariant_def
    using W(2,4) T(2,4) v
    by (simp add: m' e' axw axt Axis_resize_def Vocab_def)
qed

lemma invariant_shapes:
  assumes "model_invariant m"
  shows "map int (shape (array (weight (lm_head m)))) = [vocab_size m, size_of (In (lm_head m))]"
    and "map int (shape (array (token_embeddings (embeddings m))))
           = [vocab_size m, size_of (In (lm_head m))]"
  using assms by (auto simp: model_invariant_def wf_NamedArray_def vocab_size_def)

subsection \<open>The concrete instances evaluated\<close>

lemma example_init:
  "init example_library (Axis ''vocab'' 3) example_config 0
     = Inr (example_model [20, 21, 22, 23, 24, 25] 3)"
  by (simp add: init_def example_library_def example_config_def LlamaEmbedding_init_def
      Linear_init_def random_normal_def named_def Embed_def example_model_def example_table_def
      upt_rec)

lemma example_resize_grow:
  "resize_vocab example_library (example_model [20, 21, 22, 23, 24, 25] 3) 4 None
     = Inr (example_model [20, 21, 22, 23, 24, 25, 0, 0] 4)"
  by (simp add: resize_vocab_def resize_embeddings_def resize_axis_def maybe_rng_split_def
      example_library_def example_model_def example_table_def Vocab_def Axis_resize_def
      resized_data_def upt_rec)

lemma example_resize_shrink:
  "resize_vocab example_library (example_model [20, 21, 22, 23, 24, 25] 3) 2 None
     = Inr (example_model [20, 21, 22, 23] 2)"
  by (simp add: resize_vocab_def resize_embeddings_def resize_axis_def maybe_rng_split_def
      example_library_def example_model_def example_table_def Vocab_def Axis_resize_def
      resized_data_def upt_rec)

lemma example_resize_in_first:
  "resize_vocab example_library example_model_in_first 4 None
     = Inr \<lparr> transformer = (),
             embeddings = \<lparr> Vocab_emb = Axis ''vocab'' 4,
                            token_embeddings = example_table [20, 21, 22, 23, 24, 25, 0, 0] 4 \<rparr>,
             lm_head = \<lparr> weight = \<lparr> array = \<lparr> shape = [2, 4], data = [1, 2, 3, 0, 4, 5, 6, 0] \<rparr>,
                                    axes = [Axis ''embed'' 2, Axis ''vocab'' 4] \<rparr>,
                         bias = None, In = Axis ''embed'' 2, Out = Axis ''vocab'' 4 \<rparr> \<rparr>"
  by (simp add: resize_vocab_def resize_embeddings_def resize_axis_def maybe_rng_split_def
      example_library_def example_model_in_first_def example_table_def Vocab_def Axis_resize_def
      resized_data_def upt_rec)

text \<open>
  Claim C5. Whenever \<open>init\<close> returns a model for a vocabulary axis and a configuration,
  the weight of its output projection is an array over (vocabulary axis, hidden axis), the
  vocabulary (output) dimension first, of shape (vocabulary size, hidden size). And
  \<open>init\<close> does return one when the two sizes are not negative, the vocabulary axis is not
  called \<open>embed\<close>, and the transformer stack can be built.
\<close>

theorem init_lm_head_shape:
  "(init L V c key = Inr m \<longrightarrow>
      Out (lm_head m) = V \<and> In (lm_head m) = Embed c \<and>
      axes (weight (lm_head m)) = [V, Embed c] \<and>
      map int (shape (array (weight (lm_head m)))) = [size_of V, hidden_dim c] \<and>
      wf_ndarray (array (weight (lm_head m)))) \<and>
   (0 \<le> size_of V \<and> 0 \<le> hidden_dim c \<and> name V \<noteq> ''embed'' \<and>
      LlamaTransformer_init L c (fst (split L key)) = Inr t \<longrightarrow>
      (\<exists>m'. init L V c key = Inr m'))"
proof (intro conjI impI)
  assume i: "init L V c key = Inr m"
  note I = init_invariant [OF i]
  from I(1) have ax: "axes (weight (lm_head m)) = [Out (lm_head m), In (lm_head m)]"
    and wf: "wf_NamedArray (weight (lm_head m))" and ov: "Out (lm_head m) = Vocab m"
    by (simp_all add: model_invariant_def)
  show "Out (lm_head m) = V" using ov I(2) by simp
  show "In (lm_head m) = Embed c" by (rule I(3))
  show "axes (weight (lm_head m)) = [V, Embed c]" using ax ov I(2,3) by simp
  show "map int (shape (array (weight (lm_head m)))) = [size_of V, hidden_dim c]"
    using wf ax ov I(2,3) by (simp add: wf_NamedArray_def Embed_def)
  show "wf_ndarray (array (weight (lm_head m)))" using wf by (simp add: wf_NamedArray_def)
next
  assume "0 \<le> size_of V \<and> 0 \<le> hidden_dim c \<and> name V \<noteq> ''embed'' \<and>
      LlamaTransformer_init L c (fst (split L key)) = Inr t"
  then show "\<exists>m'. init L V c key = Inr m'"
    using init_returns [of V c L key t] by simp
qed

theorem init_lm_head_shape_witness:
  "0 \<le> size_of (Axis ''vocab'' 3) \<and> 0 \<le> hidden_dim example_config \<and>
   name (Axis ''vocab'' 3) \<noteq> ''embed'' \<and>
   LlamaTransformer_init example_library example_config (fst (split example_library 0)) = Inr () \<and>
   init example_library (Axis ''vocab'' 3) example_config 0
     = Inr (example_model [20, 21, 22, 23, 24, 25] 3) \<and>
   axes (weight (lm_head (example_model [20, 21, 22, 23, 24, 25] 3)))
     = [Axis ''vocab'' 3, Embed example_config] \<and>
   map int (shape (array (weight (lm_head (example_model [20, 21, 22, 23, 24, 25] 3))))) = [3, 2]"
  using init_lm_head_shape [of example_library "Axis ''vocab'' 3" example_config 0
      "example_model [20, 21, 22, 23, 24, 25] 3" "()"] example_init
  by (simp add: example_config_def example_library_def)

text \<open>
  Claim C10. A model returned by \<open>resize_vocab\<close> has the transformer of the original
  model, unmodified: it is the original with its embeddings and its output projection
  replaced and nothing else.
\<close>

theorem resize_vocab_keeps_transformer:
  "resize_vocab L m N key = Inr m' \<longrightarrow>
     transformer m' = transformer m \<and> (\<exists>e l. m' = m\<lparr>embeddings := e, lm_head := l\<rparr>)"
proof
  assume "resize_vocab L m N key = Inr m'"
  from resize_vocab_Inr [OF this] obtain e w where
    "m' = m\<lparr>embeddings := e,
            lm_head := (lm_head m)\<lparr>Out := Axis_resize (Vocab m) N, weight := w\<rparr>\<rparr>"
    by blast
  then show "transformer m' = transformer m \<and> (\<exists>e l. m' = m\<lparr>embeddings := e, lm_head := l\<rparr>)"
    by auto
qed

theorem resize_vocab_keeps_transformer_witness:
  "resize_vocab example_library (example_model [20, 21, 22, 23, 24, 25] 3) 4 None
     = Inr (example_model [20, 21, 22, 23, 24, 25, 0, 0] 4) \<and>
   transformer (example_model [20, 21, 22, 23, 24, 25, 0, 0] 4)
     = transformer (example_model [20, 21, 22, 23, 24, 25] 3)"
  using resize_vocab_keeps_transformer [of example_library "example_model [20, 21, 22, 23, 24, 25] 3"
      4 None "example_model [20, 21, 22, 23, 24, 25, 0, 0] 4"] example_resize_grow
  by simp

text \<open>
  Claim C4. \<open>resize_vocab\<close> returns a model for every size that is not negative. For a
  model whose embedding table and projection weight are well-formed arrays with a
  vocabulary axis (dimension \<open>i\<close> of the table, dimension \<open>j\<close> of the weight), the two
  tensors of the model it returns have exactly the new size in that dimension and every
  other dimension as before.
\<close>

theorem resize_vocab_shapes:
  "(0 \<le> N \<longrightarrow> (\<exists>m''. resize_vocab L m N key = Inr m'')) \<and>
   (wf_NamedArray (token_embeddings (embeddings m)) \<and> wf_NamedArray (weight (lm_head m)) \<and>
    axis_index (name (Vocab m)) (axes (token_embeddings (embeddings m))) = Some i \<and>
    axis_index (name (Vocab m)) (axes (weight (lm_head m))) = Some j \<and>
    resize_vocab L m N key = Inr m' \<longrightarrow>
      0 \<le> N \<and>
      i < length (shape (array (token_embeddings (embeddings m)))) \<and>
      j < length (shape (array (weight (lm_head m)))) \<and>
      shape (array (token_embeddings (embeddings m')))
        = (shape (array (token_embeddings (embeddings m))))[i := nat N] \<and>
      shape (array (weight (lm_head m'))) = (shape (array (weight (lm_head m))))[j := nat N] \<and>
      axes (token_embeddings (embeddings m'))
        = (axes (token_embeddings (embeddings m)))[i := Axis (name (Vocab m)) N] \<and>
      axes (weight (lm_head m')) = (axes (weight (lm_head m)))[j := Axis (name (Vocab m)) N] \<and>
      wf_NamedArray (token_embeddings (embeddings m')) \<and> wf_NamedArray (weight (lm_head m')) \<and>
      vocab_size m' = N \<and> Out (lm_head m') = Axis (name (Vocab m)) N \<and>
      In (lm_head m') = In (lm_head m))"
proof (intro conjI impI)
  assume "0 \<le> N"
  then show "\<exists>m''. resize_vocab L m N key = Inr m''" by (rule resize_vocab_returns)
next
  assume a: "wf_NamedArray (token_embeddings (embeddings m)) \<and> wf_NamedArray (weight (lm_head m)) \<and>
    axis_index (name (Vocab m)) (axes (token_embeddings (embeddings m))) = Some i \<and>
    axis_index (name (Vocab m)) (axes (weight (lm_head m))) = Some j \<and>
    resize_vocab L m N key = Inr m'"
  then have wft: "wf_NamedArray (token_embeddings (embeddings m))"
    and wfw: "wf_NamedArray (weight (lm_head m))"
    and it: "axis_index (name (Vocab_emb (embeddings m))) (axes (token_embeddings (embeddings m))) = Some i"
    and iw: "axis_index (name (Vocab m)) (axes (weight (lm_head m))) = Some j"
    and res: "resize_vocab L m N key = Inr m'"
    by (simp_all add: Vocab_def)
  from resize_vocab_Inr [OF res] obtain e w where
    e: "resize_embeddings L (embeddings m) N (fst (maybe_rng_split L key)) = Inr e" and
    w: "resize_axis L (weight (lm_head m)) (Vocab m) N (snd (maybe_rng_split L key)) = Inr w" and
    m': "m' = m\<lparr>embeddings := e,
                 lm_head := (lm_head m)\<lparr>Out := Axis_resize (Vocab m) N, weight := w\<rparr>\<rparr>"
    by blast
  from resize_embeddings_Inr [OF e] obtain t where
    t: "resize_axis L (token_embeddings (embeddings m)) (Vocab_emb (embeddings m)) N
          (fst (maybe_rng_split L key)) = Inr t" and
    e': "e = (embeddings m)\<lparr>Vocab_emb := Axis_resize (Vocab_emb (embeddings m)) N,
                            token_embeddings := t\<rparr>"
    by blast
  note W = resize_axis_found [OF wfw iw w]
  note T = resize_axis_found [OF wft it t]
  have lt: "length (shape (array (token_embeddings (embeddings m))))
              = length (axes (token_embeddings (embeddings m)))"
    using wft by (metis wf_NamedArray_def length_map)
  have lw: "length (shape (array (weight (lm_head m)))) = length (axes (weight (lm_head m)))"
    using wfw by (metis wf_NamedArray_def length_map)
  show "0 \<le> N" by (rule W(1))
  show "i < length (shape (array (token_embeddings (embeddings m))))"
    using axis_index_Some [OF it] lt by simp
  show "j < length (shape (array (weight (lm_head m))))"
    using axis_index_Some [OF iw] lw by simp
  show "shape (array (token_embeddings (embeddings m')))
        = (shape (array (token_embeddings (embeddings m))))[i := nat N]"
    using T(3) by (simp add: m' e')
  show "shape (array (weight (lm_head m'))) = (shape (array (weight (lm_head m))))[j := nat N]"
    using W(3) by (simp add: m')
  show "axes (token_embeddings (embeddings m'))
        = (axes (token_embeddings (embeddings m)))[i := Axis (name (Vocab m)) N]"
    using T(2) by (simp add: m' e' Vocab_def)
  show "axes (weight (lm_head m')) = (axes (weight (lm_head m)))[j := Axis (name (Vocab m)) N]"
    using W(2) by (simp add: m')
  show "wf_NamedArray (token_embeddings (embeddings m'))" using T(4) by (simp add: m' e')
  show "wf_NamedArray (weight (lm_head m'))" using W(4) by (simp add: m')
  show "vocab_size m' = N" by (simp add: m' e' vocab_size_def Vocab_def Axis_resize_def)
  show "Out (lm_head m') = Axis (name (Vocab m)) N" by (simp add: m' Axis_resize_def)
  show "In (lm_head m') = In (lm_head m)" by (simp add: m')
qed

theorem resize_vocab_shapes_witness:
  "(0::int) \<le> 4 \<and>
   wf_NamedArray (token_embeddings (embeddings example_model_in_first)) \<and>
   wf_NamedArray (weight (lm_head example_model_in_first)) \<and>
   axis_index (name (Vocab example_model_in_first))
     (axes (token_embeddings (embeddings example_model_in_first))) = Some 0 \<and>
   axis_index (name (Vocab example_model_in_first))
     (axes (weight (lm_head example_model_in_first))) = Some 1 \<and>
   (\<exists>m'. resize_vocab example_library example_model_in_first 4 None = Inr m' \<and>
      shape (array (token_embeddings (embeddings example_model_in_first))) = [3, 2] \<and>
      shape (array (token_embeddings (embeddings m'))) = [4, 2] \<and>
      shape (array (weight (lm_head example_model_in_first))) = [2, 3] \<and>
      shape (array (weight (lm_head m'))) = [2, 4])"
proof -
  have h: "wf_NamedArray (token_embeddings (embeddings example_model_in_first))"
    "wf_NamedArray (weight (lm_head example_model_in_first))"
    "axis_index (name (Vocab example_model_in_first))
       (axes (token_embeddings (embeddings example_model_in_first))) = Some 0"
    "axis_index (name (Vocab example_model_in_first))
       (axes (weight (lm_head example_model_in_first))) = Some 1"
    by (simp_all add: example_model_in_first_def example_table_def wf_NamedArray_def
        wf_ndarray_def Vocab_def)
  obtain m' where r: "resize_vocab example_library example_model_in_first 4 None = Inr m'"
    using example_resize_in_first by blast
  have s: "shape (array (token_embeddings (embeddings example_model_in_first))) = [3, 2]"
    "shape (array (weight (lm_head example_model_in_first))) = [2, 3]"
    by (simp_all add: example_model_in_first_def example_table_def)
  from resize_vocab_shapes [of 4 example_library example_model_in_first None 0 1 m'] h r s
  have "shape (array (token_embeddings (embeddings m'))) = [4, 2]"
    and "shape (array (weight (lm_head m'))) = [2, 4]"
    by simp_all
  with h r s show ?thesis by auto
qed

lemma produced_invariant: "produced L m \<Longrightarrow> model_invariant m"
proof (induction rule: produced.induct)
  case (by_init Vocab_arg config key m)
  then show ?case by (rule init_invariant(1))
next
  case (by_resize_vocab m new_size key m')
  then show ?case by (auto intro: resize_vocab_invariant(1))
qed

text \<open>
  Claim C9. In every model produced by \<open>init\<close>, or by \<open>resize_vocab\<close> from a produced model,
  the output axis of the projection is the vocabulary axis of the embedding, so
  \<open>vocab_size\<close> is the size of that output axis and the vocabulary dimension of the
  projection's weight. The two axes agree after \<open>init\<close> and after \<open>resize_vocab\<close> on any
  model.
\<close>

theorem vocab_axis_invariant:
  "(produced L m \<longrightarrow>
      Out (lm_head m) = Vocab m \<and> vocab_size m = size_of (Out (lm_head m)) \<and>
      map int (shape (array (weight (lm_head m)))) = [vocab_size m, size_of (In (lm_head m))]) \<and>
   (init L V c key = Inr m1 \<longrightarrow> Out (lm_head m1) = Vocab m1 \<and> Vocab m1 = V) \<and>
   (resize_vocab L m0 N key' = Inr m2 \<longrightarrow> Out (lm_head m2) = Vocab m2 \<and> vocab_size m2 = N)"
proof (intro conjI impI)
  assume "produced L m"
  then have inv: "model_invariant m" by (rule produced_invariant)
  then show o: "Out (lm_head m) = Vocab m" by (simp add: model_invariant_def)
  then show "vocab_size m = size_of (Out (lm_head m))" by (simp add: vocab_size_def)
  show "map int (shape (array (weight (lm_head m)))) = [vocab_size m, size_of (In (lm_head m))]"
    by (rule invariant_shapes(1) [OF inv])
next
  assume i: "init L V c key = Inr m1"
  from init_invariant [OF i] show "Out (lm_head m1) = Vocab m1" and "Vocab m1 = V"
    by (simp_all add: model_invariant_def)
next
  assume r: "resize_vocab L m0 N key' = Inr m2"
  from resize_vocab_Inr [OF r] obtain e w where
    e: "resize_embeddings L (embeddings m0) N (fst (maybe_rng_split L key')) = Inr e" and
    m2: "m2 = m0\<lparr>embeddings := e,
                 lm_head := (lm_head m0)\<lparr>Out := Axis_resize (Vocab m0) N, weight := w\<rparr>\<rparr>"
    by blast
  from resize_embeddings_Inr [OF e] obtain t where
    e': "e = (embeddings m0)\<lparr>Vocab_emb := Axis_resize (Vocab_emb (embeddings m0)) N,
                             token_embeddings := t\<rparr>"
    by blast
  show "Out (lm_head m2) = Vocab m2" by (simp add: m2 e' Vocab_def)
  show "vocab_size m2 = N" by (simp add: m2 e' Vocab_def vocab_size_def Axis_resize_def)
qed

theorem vocab_axis_invariant_witness:
  "init example_library (Axis ''vocab'' 3) example_config 0
     = Inr (example_model [20, 21, 22, 23, 24, 25] 3) \<and>
   resize_vocab example_library (example_model [20, 21, 22, 23, 24, 25] 3) 4 None
     = Inr (example_model [20, 21, 22, 23, 24, 25, 0, 0] 4) \<and>
   produced example_library (example_model [20, 21, 22, 23, 24, 25, 0, 0] 4) \<and>
   Out (lm_head (example_model [20, 21, 22, 23, 24, 25, 0, 0] 4))
     = Vocab (example_model [20, 21, 22, 23, 24, 25, 0, 0] 4) \<and>
   vocab_size (example_model [20, 21, 22, 23, 24, 25, 0, 0] 4) = 4 \<and>
   map int (shape (array (weight (lm_head (example_model [20, 21, 22, 23, 24, 25, 0, 0] 4)))))
     = [4, 2]"
proof -
  have "produced example_library (example_model [20, 21, 22, 23, 24, 25] 3)"
    by (rule by_init) (rule example_init)
  then have p: "produced example_library (example_model [20, 21, 22, 23, 24, 25, 0, 0] 4)"
    by (rule by_resize_vocab) (rule example_resize_grow)
  show ?thesis
    using p example_init example_resize_grow
      vocab_axis_invariant [of example_library "example_model [20, 21, 22, 23, 24, 25, 0, 0] 4"
        "Axis ''vocab'' 3" example_config 0 "example_model [20, 21, 22, 23, 24, 25] 3"
        "example_model [20, 21, 22, 23, 24, 25] 3" 4 None
        "example_model [20, 21, 22, 23, 24, 25, 0, 0] 4"]
    by (simp add: example_model_def example_table_def vocab_size_def Vocab_def)
qed

section \<open>Checkpoint round trip\<close>

lemma apply_prefix_leaf:
  "apply_prefix p (Some l) = Some (case p of None \<Rightarrow> l | Some q \<Rightarrow> q @ ''.'' @ l)"
  by (cases p) simp_all

text \<open>The keys of the three fields under the key map of lines 196-197.\<close>

lemma field_prefix_lm_head: "field_prefix prefix ''lm_head'' = apply_prefix prefix (Some ''lm_head'')"
  by (simp add: field_prefix_def state_dict_key_map_def)

lemma field_prefix_transformer: "field_prefix prefix ''transformer'' = apply_prefix prefix (Some ''model'')"
  by (simp add: field_prefix_def state_dict_key_map_def)

lemma field_prefix_embeddings: "field_prefix prefix ''embeddings'' = prefix"
  by (cases prefix) (simp_all add: field_prefix_def state_dict_key_map_def)

lemma lookup_entry_same: "lookup (d ++ entry p l a) p l = Inr a"
  by (simp add: lookup_def entry_def apply_prefix_leaf)

lemma lookup_entry_bias: "lookup (d ++ entry p ''bias'' b) p ''weight'' = lookup d p ''weight''"
  by (cases p) (simp_all add: lookup_def entry_def map_add_def)

lemma lookup_entry_weight_bias:
  "lookup (d ++ entry p ''weight'' a ++ entry p ''bias'' b) p ''weight'' = Inr a"
  by (simp only: lookup_entry_bias lookup_entry_same)

lemma transpose2_involution:
  assumes "length xs = r * c"
  shows "transpose2 c r (transpose2 r c xs) = xs"
proof (rule nth_equalityI)
  show "length (transpose2 c r (transpose2 r c xs)) = length xs"
    using assms by (simp add: transpose2_def mult.commute)
next
  fix k assume "k < length (transpose2 c r (transpose2 r c xs))"
  then have k: "k < c * r" by (simp add: transpose2_def)
  then have c: "0 < c" and r: "0 < r" by (cases c; cases r; simp)+
  have kd: "k div c < r" using k by (simp add: less_mult_imp_div_less mult.commute)
  have km: "k mod c < c" using c by simp
  let ?j = "(k mod c) * r + k div c"
  have "?j < c * r"
  proof -
    have "?j < (k mod c) * r + r" using kd by simp
    also have "\<dots> = Suc (k mod c) * r" by simp
    also have "\<dots> \<le> c * r" using km by (intro mult_le_mono1) simp
    finally show ?thesis .
  qed
  then have j: "?j < r * c" by (simp add: mult.commute)
  have jm: "?j mod r = k div c" using kd by simp
  have jd: "?j div r = k mod c" using kd r by simp
  have "transpose2 c r (transpose2 r c xs) ! k = transpose2 r c xs ! ?j"
    using k by (simp add: transpose2_def)
  also have "\<dots> = xs ! ((?j mod r) * c + ?j div r)"
    using j by (simp only: transpose2_def nth_map_upt) simp
  also have "\<dots> = xs ! k"
    by (simp only: jm jd) (simp add: mult.commute)
  finally show "transpose2 c r (transpose2 r c xs) ! k = xs ! k" .
qed

lemma transpose_nd_involution:
  assumes "wf_ndarray a" and "length (shape a) = 2"
  shows "transpose_nd (transpose_nd a) = a"
proof -
  from assms(2) obtain r c where s: "shape a = [r, c]"
    by (cases "shape a"; simp) (metis Suc_length_conv length_0_conv)
  with assms(1) have "length (data a) = r * c" by (simp add: wf_ndarray_def)
  then show ?thesis
    using s by (simp add: transpose_nd_def transpose2_involution)
qed

lemma wf_Linear_facts:
  assumes "wf_Linear l"
  shows "Out l \<noteq> In l"
    and "axes (weight l) = [Out l, In l] \<and>
           map int (shape (array (weight l))) = [size_of (Out l), size_of (In l)] \<or>
         axes (weight l) = [In l, Out l] \<and>
           map int (shape (array (weight l))) = [size_of (In l), size_of (Out l)]"
proof -
  from assms have d: "distinct (map name (axes (weight l)))"
    and s: "map int (shape (array (weight l))) = map size_of (axes (weight l))"
    and a: "axes (weight l) = [Out l, In l] \<or> axes (weight l) = [In l, Out l]"
    by (simp_all add: wf_Linear_def wf_NamedArray_def)
  from d a have "name (Out l) \<noteq> name (In l)" by auto
  then show "Out l \<noteq> In l" by auto
  from a s show "axes (weight l) = [Out l, In l] \<and>
           map int (shape (array (weight l))) = [size_of (Out l), size_of (In l)] \<or>
         axes (weight l) = [In l, Out l] \<and>
           map int (shape (array (weight l))) = [size_of (In l), size_of (Out l)]"
    by auto
qed

lemma wf_Linear_cases:
  assumes "wf_Linear l"
  obtains (out_first) "axes (weight l) = [Out l, In l]" "Out l \<noteq> In l"
      "map int (shape (array (weight l))) = [size_of (Out l), size_of (In l)]"
    | (in_first) "axes (weight l) = [In l, Out l]" "Out l \<noteq> In l"
      "map int (shape (array (weight l))) = [size_of (In l), size_of (Out l)]"
  using wf_Linear_facts [OF assms] by blast

lemma wf_Linear_2d:
  assumes "wf_Linear l"
  shows "length (shape (array (weight l))) = 2" and "wf_ndarray (array (weight l))"
proof -
  from assms have "map int (shape (array (weight l))) = map size_of (axes (weight l))"
    and "length (axes (weight l)) = 2"
    by (auto simp: wf_Linear_def wf_NamedArray_def)
  then show "length (shape (array (weight l))) = 2" by (metis length_map)
  show "wf_ndarray (array (weight l))"
    using assms by (simp add: wf_Linear_def wf_NamedArray_def)
qed

lemma transpose_nd_sizes:
  "map int (shape a) = [x, y] \<Longrightarrow> map int (shape (transpose_nd a)) = [y, x]"
  by (cases "shape a"; cases "tl (shape a)"; auto simp: transpose_nd_def)

lemma transpose_nd_2d:
  "length (shape a) = 2 \<Longrightarrow> length (shape (transpose_nd a)) = 2"
  by (cases "shape a"; cases "tl (shape a)"; auto simp: transpose_nd_def)

text \<open>What export stores under the weight key.\<close>

lemma flatten_exported:
  assumes wf: "wf_Linear l"
  shows "\<exists>flat. flatten_linear_layers P l True = Inr flat \<and>
           lookup (d ++ flat) P ''weight'' =
             Inr (if axes (weight l) = [Out l, In l] then array (weight l)
                  else transpose_nd (array (weight l))) \<and>
           map int (shape (if axes (weight l) = [Out l, In l] then array (weight l)
                           else transpose_nd (array (weight l))))
             = [size_of (Out l), size_of (In l)]"
  using wf
proof (cases rule: wf_Linear_cases)
  case out_first
  then show ?thesis
    by (cases "bias l")
      (simp_all add: flatten_linear_layers_def Let_def lookup_entry_same lookup_entry_weight_bias)
next
  case in_first
  then have ne: "[In l, Out l] \<noteq> [Out l, In l]" by auto
  from in_first show ?thesis
    by (cases "bias l")
      (simp_all add: flatten_linear_layers_def Let_def lookup_entry_same lookup_entry_weight_bias
        ne transpose_nd_sizes)
qed

lemma out_first_wf:
  assumes "wf_Linear l"
  shows "out_first l = Inr (axes (weight l) = [Out l, In l])"
  using assms by (cases rule: wf_Linear_cases) (auto simp: out_first_def)

text \<open>What import puts back under the weight key.\<close>

lemma unflatten_exported:
  assumes wf: "wf_Linear l"
    and W: "lookup sd P ''weight'' =
              Inr (if axes (weight l) = [Out l, In l] then array (weight l)
                   else transpose_nd (array (weight l)))"
    and u: "unflatten_linear_layers P sd l True = Inr u"
  shows "lookup (d ++ u) P ''weight'' = Inr (array (weight l))"
proof -
  note two = wf_Linear_2d [OF wf]
  have inv: "transpose_nd (transpose_nd (array (weight l))) = array (weight l)"
    by (rule transpose_nd_involution) (rule two)+
  from wf show ?thesis
  proof (cases rule: wf_Linear_cases)
    case out_first
    with u W two show ?thesis
      by (auto simp: unflatten_linear_layers_def out_first_wf [OF wf] Let_def
          lookup_entry_same lookup_entry_weight_bias split: sum.splits if_splits)
  next
    case in_first
    then have ne: "[In l, Out l] \<noteq> [Out l, In l]" by auto
    with u W two in_first inv show ?thesis
      by (auto simp: unflatten_linear_layers_def out_first_wf [OF wf] Let_def
          lookup_entry_same lookup_entry_weight_bias split: sum.splits if_splits)
  qed
qed

text \<open>Unflattening what export stored does not fail on the weight.\<close>

lemma unflatten_returns:
  assumes wf: "wf_Linear l"
    and W: "lookup sd P ''weight'' =
              Inr (if axes (weight l) = [Out l, In l] then array (weight l)
                   else transpose_nd (array (weight l)))"
    and nb: "lookup sd P ''bias'' = Inl e"
  shows "\<exists>u. unflatten_linear_layers P sd l True = Inr u"
proof -
  note two = wf_Linear_2d [OF wf]
  have inv: "transpose_nd (transpose_nd (array (weight l))) = array (weight l)"
    by (rule transpose_nd_involution) (rule two)+
  from wf show ?thesis
  proof (cases rule: wf_Linear_cases)
    case out_first
    with W two nb show ?thesis
      by (simp add: unflatten_linear_layers_def out_first_wf [OF wf] Let_def)
  next
    case in_first
    then have ne: "[In l, Out l] \<noteq> [Out l, In l]" by auto
    with W two in_first inv nb show ?thesis
      by (simp add: unflatten_linear_layers_def out_first_wf [OF wf] Let_def transpose_nd_2d)
  qed
qed

lemma Linear_from_state_dict_weight:
  assumes "Linear_from_state_dict t d P = Inr l'" and "lookup d P ''weight'' = Inr a"
  shows "weight l' = \<lparr>array = a, axes = axes (weight t)\<rparr>" and "In l' = In t" and "Out l' = Out t"
  using assms
  by (auto simp: Linear_from_state_dict_def split: sum.splits option.splits dest: named_Inr)

lemma update_state_dict_cases:
  "(\<exists>flat. flatten_linear_layers (apply_prefix prefix (Some ''lm_head'')) (lm_head m) True = Inr flat \<and>
      update_state_dict L m st state_dict prefix =
        (st[state_dict := st ! state_dict ++ (mixin_update_state_dict L m Map.empty prefix ++ flat)],
         Inr state_dict)) \<or>
   (\<exists>e. flatten_linear_layers (apply_prefix prefix (Some ''lm_head'')) (lm_head m) True = Inl e \<and>
      update_state_dict L m st state_dict prefix = (st, Inl e))"
  by (cases "flatten_linear_layers (apply_prefix prefix (Some ''lm_head'')) (lm_head m) True")
    (simp_all add: update_state_dict_def Let_def)

lemma from_state_dict_cases:
  assumes "state_dict < length st"
  shows
  "(\<exists>u. unflatten_linear_layers (apply_prefix prefix (Some ''lm_head'')) (st ! state_dict)
           (lm_head t) True = Inr u \<and>
      from_state_dict L t st state_dict prefix =
        (st @ [st ! state_dict ++ u],
         mixin_from_state_dict L t (st ! state_dict ++ u) prefix)) \<or>
   (\<exists>e. unflatten_linear_layers (apply_prefix prefix (Some ''lm_head'')) (st ! state_dict)
           (lm_head t) True = Inl e \<and>
      from_state_dict L t st state_dict prefix = (st @ [st ! state_dict], Inl e))"
  using assms
  by (cases "unflatten_linear_layers (apply_prefix prefix (Some ''lm_head'')) (st ! state_dict)
           (lm_head t) True")
    (simp_all add: from_state_dict_def Let_def nth_append)

lemma mixin_from_state_dict_lm_head:
  assumes "mixin_from_state_dict L t d prefix = Inr m'"
  shows "Linear_from_state_dict (lm_head t) d (apply_prefix prefix (Some ''lm_head''))
           = Inr (lm_head m')"
  using assms
  by (auto simp: mixin_from_state_dict_def field_prefix_lm_head split: sum.splits)

lemma unflatten_template:
  assumes "axes (weight t) = axes (weight l)" and "In t = In l" and "Out t = Out l"
  shows "unflatten_linear_layers P sd t b = unflatten_linear_layers P sd l b"
proof -
  have "out_first t = out_first l"
    using assms by (simp add: out_first_def)
  then show ?thesis
    using assms(2,3)
    by (simp add: unflatten_linear_layers_def Let_def cong: sum.case_cong if_cong)
qed

text \<open>
  Claim C1. For a model with a well-formed output projection \<open>update_state_dict\<close>
  returns, and the state dict then holds the weight under the key \<open>lm_head.weight\<close>
  below the prefix, with the output dimension first. When \<open>from_state_dict\<close>, called on
  a model whose output projection has the same axes, has imported that state dict, the
  imported weight of the output projection is the original weight, element for element,
  over the same axes.
\<close>

theorem lm_head_round_trip:
  assumes wf: "wf_Linear (lm_head m)"
    and ref: "state_dict < length st"
    and tmpl: "axes (weight (lm_head t)) = axes (weight (lm_head m))"
      "In (lm_head t) = In (lm_head m)" "Out (lm_head t) = Out (lm_head m)"
    and im: "snd (from_state_dict L t (fst (update_state_dict L m st state_dict prefix))
                    state_dict prefix) = Inr m'"
  shows "snd (update_state_dict L m st state_dict prefix) = Inr state_dict \<and>
         weight (lm_head m') = weight (lm_head m) \<and>
         In (lm_head m') = In (lm_head m) \<and> Out (lm_head m') = Out (lm_head m) \<and>
         (\<exists>a. lookup (fst (update_state_dict L m st state_dict prefix) ! state_dict)
                 (apply_prefix prefix (Some ''lm_head'')) ''weight'' = Inr a \<and>
               map int (shape a) = [size_of (Out (lm_head m)), size_of (In (lm_head m))])"
proof -
  let ?P = "apply_prefix prefix (Some ''lm_head'')"
  let ?W = "if axes (weight (lm_head m)) = [Out (lm_head m), In (lm_head m)]
            then array (weight (lm_head m)) else transpose_nd (array (weight (lm_head m)))"
  let ?d = "st ! state_dict ++ mixin_update_state_dict L m Map.empty prefix"
  from flatten_exported [OF wf, of ?P ?d] obtain flat where
    fl: "flatten_linear_layers ?P (lm_head m) True = Inr flat"
    by (elim exE conjE)
  from flatten_exported [OF wf, of ?P ?d] fl
  have lk: "lookup (?d ++ flat) ?P ''weight'' = Inr ?W"
    and sh: "map int (shape ?W) = [size_of (Out (lm_head m)), size_of (In (lm_head m))]"
    by simp_all
  let ?st' = "st[state_dict := st ! state_dict ++ (mixin_update_state_dict L m Map.empty prefix ++ flat)]"
  have up: "update_state_dict L m st state_dict prefix = (?st', Inr state_dict)"
    using update_state_dict_cases [of prefix m L st state_dict] fl by auto
  then have ret: "snd (update_state_dict L m st state_dict prefix) = Inr state_dict" by simp
  have cell: "?st' ! state_dict = ?d ++ flat" using ref by simp
  have ref': "state_dict < length ?st'" using ref by simp
  from im up have im': "snd (from_state_dict L t ?st' state_dict prefix) = Inr m'" by simp
  from from_state_dict_cases [OF ref', of prefix t L] im' obtain u where
    u: "unflatten_linear_layers ?P (?st' ! state_dict) (lm_head t) True = Inr u" and
    mx: "mixin_from_state_dict L t (?st' ! state_dict ++ u) prefix = Inr m'"
    by auto
  from u have u': "unflatten_linear_layers ?P (?d ++ flat) (lm_head m) True = Inr u"
    by (simp only: cell unflatten_template [OF tmpl])
  have again: "lookup (?d ++ flat ++ u) ?P ''weight'' = Inr (array (weight (lm_head m)))"
    by (rule unflatten_exported [OF wf lk u'])
  from mixin_from_state_dict_lm_head [OF mx]
  have "Linear_from_state_dict (lm_head t) (?d ++ flat ++ u) ?P = Inr (lm_head m')"
    by (simp only: cell)
  note L = Linear_from_state_dict_weight [OF this again]
  have w: "weight (lm_head m') = weight (lm_head m)"
    using L(1) tmpl(1) by simp
  have stored: "lookup (fst (update_state_dict L m st state_dict prefix) ! state_dict) ?P ''weight''
      = Inr ?W"
    using lk by (simp only: up fst_conv cell)
  have e: "\<exists>a. lookup (fst (update_state_dict L m st state_dict prefix) ! state_dict) ?P ''weight''
                 = Inr a \<and>
               map int (shape a) = [size_of (Out (lm_head m)), size_of (In (lm_head m))]"
    by (rule exI [of _ ?W]) (rule conjI [OF stored sh])
  show ?thesis
    using ret w L(2,3) tmpl(2,3) e by simp
qed

text \<open>
  Claim C8. \<open>from_state_dict\<close> leaves the mapping it is given, and every other mapping of
  the store, as it was: it allocates one new mapping, and when the entries of the output
  projection can be unflattened, that new mapping is the copy with these entries added.
\<close>

theorem from_state_dict_keeps_state_dict:
  assumes "state_dict < length st"
  shows "take (length st) (fst (from_state_dict L m st state_dict prefix)) = st \<and>
         fst (from_state_dict L m st state_dict prefix) ! state_dict = st ! state_dict \<and>
         length (fst (from_state_dict L m st state_dict prefix)) = Suc (length st) \<and>
         (\<forall>u. unflatten_linear_layers (apply_prefix prefix (Some ''lm_head'')) (st ! state_dict)
                 (lm_head m) True = Inr u \<longrightarrow>
              fst (from_state_dict L m st state_dict prefix) ! length st = st ! state_dict ++ u)"
  using from_state_dict_cases [OF assms, of prefix m L] assms
  by (auto simp: nth_append)

lemma example_wf: "wf_Linear (lm_head example_model_in_first)"
  by (simp add: wf_Linear_def wf_NamedArray_def wf_ndarray_def example_model_in_first_def)

lemma example_export:
  "snd (update_state_dict example_library example_model_in_first [Map.empty] 0 None) = Inr 0"
  by (simp add: update_state_dict_def flatten_linear_layers_def example_model_in_first_def Let_def)

lemma example_exported_weight:
  "(fst (update_state_dict example_library example_model_in_first [Map.empty] 0 None) ! 0)
     ''lm_head.weight'' = Some \<lparr> shape = [3, 2], data = [1, 4, 2, 5, 3, 6] \<rparr>"
  by (simp add: update_state_dict_def flatten_linear_layers_def example_model_in_first_def Let_def
      entry_def transpose_nd_def transpose2_def upt_rec)

text \<open>The embedding, whose key is \<open>None\<close> in the key map, is stored right below the prefix.\<close>

lemma example_exported_table:
  "(fst (update_state_dict example_library example_model_in_first [Map.empty] 0 None) ! 0)
     ''model.embed_tokens.weight'' = Some \<lparr> shape = [3, 2], data = [20, 21, 22, 23, 24, 25] \<rparr>"
  by (simp add: update_state_dict_def flatten_linear_layers_def example_model_in_first_def Let_def
      entry_def transpose_nd_def mixin_update_state_dict_def Linear_update_state_dict_def
      example_library_def field_prefix_def state_dict_key_map_def example_table_def)

lemma example_import:
  "snd (from_state_dict example_library example_model_in_first
          (fst (update_state_dict example_library example_model_in_first [Map.empty] 0 None)) 0 None)
     = Inr example_model_in_first"
  by (simp add: from_state_dict_def update_state_dict_def flatten_linear_layers_def
      unflatten_linear_layers_def out_first_def lookup_def
      example_model_in_first_def Let_def
      entry_def transpose_nd_def transpose2_def upt_rec mixin_update_state_dict_def
      mixin_from_state_dict_def Linear_from_state_dict_def named_def
      Linear_update_state_dict_def
      example_library_def field_prefix_def state_dict_key_map_def example_table_def)

theorem lm_head_round_trip_witness:
  "wf_Linear (lm_head example_model_in_first) \<and>
   0 < length [Map.empty :: nat StateDict] \<and>
   snd (update_state_dict example_library example_model_in_first [Map.empty] 0 None) = Inr 0 \<and>
   snd (from_state_dict example_library example_model_in_first
          (fst (update_state_dict example_library example_model_in_first [Map.empty] 0 None)) 0 None)
     = Inr example_model_in_first \<and>
   lookup (fst (update_state_dict example_library example_model_in_first [Map.empty] 0 None) ! 0)
     (apply_prefix None (Some ''lm_head'')) ''weight''
     = Inr \<lparr> shape = [3, 2], data = [1, 4, 2, 5, 3, 6] \<rparr> \<and>
   weight (lm_head example_model_in_first)
     = \<lparr> array = \<lparr> shape = [2, 3], data = [1, 2, 3, 4, 5, 6] \<rparr>,
         axes = [Axis ''embed'' 2, Axis ''vocab'' 3] \<rparr>"
proof -
  have len: "0 < length [Map.empty :: nat StateDict]" by simp
  have stored: "lookup (fst (update_state_dict example_library example_model_in_first [Map.empty] 0 None) ! 0)
     (apply_prefix None (Some ''lm_head'')) ''weight''
     = Inr \<lparr> shape = [3, 2], data = [1, 4, 2, 5, 3, 6] \<rparr>"
    using example_exported_weight by (simp add: lookup_def)
  have same: "weight (lm_head example_model_in_first)
     = \<lparr> array = \<lparr> shape = [2, 3], data = [1, 2, 3, 4, 5, 6] \<rparr>,
         axes = [Axis ''embed'' 2, Axis ''vocab'' 3] \<rparr>"
    by (simp add: example_model_in_first_def)
  note lm_head_round_trip [OF example_wf len refl refl refl example_import]
  with example_wf len example_export example_import stored same show ?thesis by simp
qed

text \<open>
  Claim C7 as stated fails for \<open>update_state_dict\<close>: the mapping it is handed is changed.
  An empty mapping has the key \<open>lm_head.weight\<close> afterwards.
\<close>

theorem update_state_dict_mutates_counterexample:
  "([Map.empty] ! 0) ''lm_head.weight'' = (None :: nat ndarray option) \<and>
   (fst (update_state_dict example_library example_model_in_first [Map.empty] 0 None) ! 0)
     ''lm_head.weight'' = Some \<lparr> shape = [3, 2], data = [1, 4, 2, 5, 3, 6] \<rparr>"
  using example_exported_weight by simp

lemma to_hf_config_on_frame:
  "unchanged h (fst (to_hf_config_on h self v ov))"
  by (cases ov; cases "to_hf_config self v (Some (dicts h ! the ov))";
      cases "to_hf_config self v (Some [])")
    (simp_all add: to_hf_config_on_def unchanged_def Let_def)

lemma to_hf_config_on_result:
  "map_sum id (\<lambda>r. hf_configs (fst (to_hf_config_on h self v ov)) ! r)
       (snd (to_hf_config_on h self v ov))
     = to_hf_config self v (case ov of None \<Rightarrow> None | Some r \<Rightarrow> Some (dicts h ! r))"
proof (cases ov)
  case None
  have "to_hf_config self v (Some []) = to_hf_config self v None"
    by (simp add: to_hf_config_def)
  then show ?thesis
    using None
    by (cases "to_hf_config self v None") (simp_all add: to_hf_config_on_def Let_def)
next
  case (Some r)
  then show ?thesis
    by (cases "to_hf_config self v (Some (dicts h ! r))")
      (simp_all add: to_hf_config_on_def Let_def)
qed

lemma from_state_dict_local:
  assumes "state_dict < length st"
  shows "snd (from_state_dict L m st state_dict prefix)
           = snd (from_state_dict L m [st ! state_dict] 0 prefix)"
proof -
  have one: "(0::nat) < length [st ! state_dict]" by simp
  show ?thesis
    using from_state_dict_cases [OF assms, of prefix m L]
      from_state_dict_cases [OF one, of prefix m L]
    by auto
qed

lemma update_state_dict_effect:
  assumes "state_dict < length st"
  shows "fst (update_state_dict L m st state_dict prefix)
           = st[state_dict := fst (update_state_dict L m st state_dict prefix) ! state_dict] \<and>
         ((\<exists>flat. flatten_linear_layers (apply_prefix prefix (Some ''lm_head'')) (lm_head m) True
                    = Inr flat \<and>
             snd (update_state_dict L m st state_dict prefix) = Inr state_dict \<and>
             fst (update_state_dict L m st state_dict prefix) ! state_dict =
               st ! state_dict ++ (mixin_update_state_dict L m Map.empty prefix ++ flat)) \<or>
          (\<exists>e. snd (update_state_dict L m st state_dict prefix) = Inl e \<and>
             fst (update_state_dict L m st state_dict prefix) = st))"
  using update_state_dict_cases [of prefix m L st state_dict] assms by auto

lemma from_state_dict_frame:
  assumes "state_dict < length st"
  shows "take (length st) (fst (from_state_dict L m st state_dict prefix)) = st"
  using from_state_dict_cases [OF assms, of prefix m L] by auto

text \<open>
  Claim C7, amended. Over the heap of mutable objects: \<open>from_hf_config\<close> leaves the heap
  as it is and its result is read off the configuration object it is given;
  \<open>to_hf_config\<close> changes no existing object and the configuration it allocates is read
  off the internal configuration, the vocabulary size and the overrides; the forward call
  and \<open>resize_vocab\<close> leave the heap as it is and their results do not depend on it;
  \<open>from_state_dict\<close> changes no existing object and its result depends on the heap
  only through the mapping it is given. \<open>update_state_dict\<close> changes exactly one
  object, the mapping it is given: when it returns (and it does for a well-formed output
  projection), it returns that same mapping, which then holds its old entries overwritten
  by the exported ones (the entries of the fields, then the flattened output projection);
  when it raises, the heap is as it was.
\<close>

theorem operations_effects:
  assumes sd: "state_dict < length (state_dicts h)"
  shows
    "fst (from_hf_config_on h hf_config) = h \<and>
     snd (from_hf_config_on h hf_config) = from_hf_config (hf_configs h ! hf_config) \<and>
     unchanged h (fst (to_hf_config_on h c v ov)) \<and>
     map_sum id (\<lambda>r. hf_configs (fst (to_hf_config_on h c v ov)) ! r)
         (snd (to_hf_config_on h c v ov))
       = to_hf_config c v (case ov of None \<Rightarrow> None | Some r \<Rightarrow> Some (dicts h ! r)) \<and>
     fst (call_on h F L m input_ids attn_mask key) = h \<and>
     snd (call_on h F L m input_ids attn_mask key)
       = snd (call_on h2 F L m input_ids attn_mask key) \<and>
     fst (resize_vocab_on h L m N key') = h \<and>
     snd (resize_vocab_on h L m N key') = snd (resize_vocab_on h2 L m N key') \<and>
     unchanged h (fst (from_state_dict_on h L m state_dict prefix)) \<and>
     snd (from_state_dict_on h L m state_dict prefix)
       = snd (from_state_dict L m [state_dicts h ! state_dict] 0 prefix) \<and>
     dicts (fst (update_state_dict_on h L m state_dict prefix)) = dicts h \<and>
     hf_configs (fst (update_state_dict_on h L m state_dict prefix)) = hf_configs h \<and>
     state_dicts (fst (update_state_dict_on h L m state_dict prefix))
       = (state_dicts h)[state_dict :=
            state_dicts (fst (update_state_dict_on h L m state_dict prefix)) ! state_dict] \<and>
     ((\<exists>flat. flatten_linear_layers (apply_prefix prefix (Some ''lm_head'')) (lm_head m) True
                = Inr flat \<and>
         snd (update_state_dict_on h L m state_dict prefix) = Inr state_dict \<and>
         state_dicts (fst (update_state_dict_on h L m state_dict prefix)) ! state_dict =
           state_dicts h ! state_dict ++ (mixin_update_state_dict L m Map.empty prefix ++ flat)) \<or>
      (\<exists>e. snd (update_state_dict_on h L m state_dict prefix) = Inl e \<and>
         fst (update_state_dict_on h L m state_dict prefix) = h)) \<and>
     (wf_Linear (lm_head m) \<longrightarrow>
        snd (update_state_dict_on h L m state_dict prefix) = Inr state_dict)"
proof -
  have a: "fst (from_hf_config_on h hf_config) = h"
    and b: "snd (from_hf_config_on h hf_config) = from_hf_config (hf_configs h ! hf_config)"
    by (simp_all add: from_hf_config_on_def)
  have c: "unchanged h (fst (to_hf_config_on h c v ov))"
    by (rule to_hf_config_on_frame)
  have d: "map_sum id (\<lambda>r. hf_configs (fst (to_hf_config_on h c v ov)) ! r)
         (snd (to_hf_config_on h c v ov))
       = to_hf_config c v (case ov of None \<Rightarrow> None | Some r \<Rightarrow> Some (dicts h ! r))"
    by (rule to_hf_config_on_result)
  have e: "fst (call_on h F L m input_ids attn_mask key) = h"
    and f: "snd (call_on h F L m input_ids attn_mask key)
       = snd (call_on h2 F L m input_ids attn_mask key)"
    and g: "fst (resize_vocab_on h L m N key') = h"
    and i: "snd (resize_vocab_on h L m N key') = snd (resize_vocab_on h2 L m N key')"
    by (simp_all add: call_on_def resize_vocab_on_def)
  have j: "unchanged h (fst (from_state_dict_on h L m state_dict prefix))"
    using from_state_dict_frame [OF sd, of L m prefix]
    by (simp add: from_state_dict_on_def unchanged_def)
  have k: "snd (from_state_dict_on h L m state_dict prefix)
       = snd (from_state_dict L m [state_dicts h ! state_dict] 0 prefix)"
    using from_state_dict_local [OF sd, of L m prefix] by (simp add: from_state_dict_on_def)
  have l: "dicts (fst (update_state_dict_on h L m state_dict prefix)) = dicts h"
    and n: "hf_configs (fst (update_state_dict_on h L m state_dict prefix)) = hf_configs h"
    by (simp_all add: update_state_dict_on_def)
  note U = update_state_dict_effect [OF sd, of L m prefix]
  have o: "state_dicts (fst (update_state_dict_on h L m state_dict prefix))
       = (state_dicts h)[state_dict :=
            state_dicts (fst (update_state_dict_on h L m state_dict prefix)) ! state_dict]"
    using U by (simp add: update_state_dict_on_def)
  have p: "(\<exists>flat. flatten_linear_layers (apply_prefix prefix (Some ''lm_head'')) (lm_head m) True
                = Inr flat \<and>
         snd (update_state_dict_on h L m state_dict prefix) = Inr state_dict \<and>
         state_dicts (fst (update_state_dict_on h L m state_dict prefix)) ! state_dict =
           state_dicts h ! state_dict ++ (mixin_update_state_dict L m Map.empty prefix ++ flat)) \<or>
      (\<exists>e. snd (update_state_dict_on h L m state_dict prefix) = Inl e \<and>
         fst (update_state_dict_on h L m state_dict prefix) = h)"
    using U by (auto simp: update_state_dict_on_def)
  have q: "wf_Linear (lm_head m) \<longrightarrow>
        snd (update_state_dict_on h L m state_dict prefix) = Inr state_dict"
  proof
    assume "wf_Linear (lm_head m)"
    from flatten_exported [OF this, of "apply_prefix prefix (Some ''lm_head'')" Map.empty]
      update_state_dict_cases [of prefix m L "state_dicts h" state_dict]
    show "snd (update_state_dict_on h L m state_dict prefix) = Inr state_dict"
      by (auto simp: update_state_dict_on_def)
  qed
  from a b c d e f g i j k l n o p q show ?thesis by (intro conjI)
qed

theorem operations_effects_witness:
  "0 < length (state_dicts example_heap) \<and>
   wf_Linear (lm_head example_model_in_first) \<and>
   fst (from_hf_config_on example_heap 0) = example_heap \<and>
   seq_len (snd (from_hf_config_on example_heap 0)) = 32768 \<and>
   snd (to_hf_config_on example_heap MistralConfig_defaults 32000 (Some 0)) = Inr 1 \<and>
   dicts (fst (to_hf_config_on example_heap MistralConfig_defaults 32000 (Some 0)))
     = dicts example_heap \<and>
   unchanged example_heap (fst (to_hf_config_on example_heap MistralConfig_defaults 32000 (Some 0))) \<and>
   fst (call_on example_heap example_forward example_library example_model_in_first
          \<lparr> array = \<lparr> shape = [1], data = [2] \<rparr>, axes = [Axis ''position'' 1] \<rparr> None None)
     = example_heap \<and>
   fst (resize_vocab_on example_heap example_library example_model_in_first 4 None) = example_heap \<and>
   unchanged example_heap
     (fst (from_state_dict_on example_heap example_library example_model_in_first 0 None)) \<and>
   snd (update_state_dict_on example_heap example_library example_model_in_first 0 None) = Inr 0 \<and>
   (state_dicts (fst (update_state_dict_on example_heap example_library example_model_in_first 0 None))
      ! 0) ''lm_head.weight'' = Some \<lparr> shape = [3, 2], data = [1, 4, 2, 5, 3, 6] \<rparr>"
proof -
  have len: "0 < length (state_dicts example_heap)" by (simp add: example_heap_def)
  note E = operations_effects [OF len, of 0 MistralConfig_defaults 32000 "Some 0"
      example_forward example_library example_model_in_first
      "\<lparr> array = \<lparr> shape = [1], data = [2] \<rparr>, axes = [Axis ''position'' 1] \<rparr>" None None
      example_heap 4 None None]
  have t: "snd (to_hf_config_on example_heap MistralConfig_defaults 32000 (Some 0)) = Inr 1"
    "dicts (fst (to_hf_config_on example_heap MistralConfig_defaults 32000 (Some 0)))
       = dicts example_heap"
    by (simp_all add: to_hf_config_on_def to_hf_config_def to_hf_config_keywords_def
        example_heap_def Let_def)
  have s: "seq_len (snd (from_hf_config_on example_heap 0)) = 32768"
    by (simp add: from_hf_config_on_def from_hf_config_def example_heap_def)
  have u: "snd (update_state_dict_on example_heap example_library example_model_in_first 0 None)
      = Inr 0"
    using example_export by (simp add: update_state_dict_on_def example_heap_def)
  have w: "(state_dicts (fst (update_state_dict_on example_heap example_library
              example_model_in_first 0 None)) ! 0) ''lm_head.weight''
      = Some \<lparr> shape = [3, 2], data = [1, 4, 2, 5, 3, 6] \<rparr>"
    using example_exported_weight by (simp add: update_state_dict_on_def example_heap_def)
  from E len t s u w example_wf show ?thesis by simp
qed

theorem from_state_dict_keeps_state_dict_witness:
  "0 < length [[''lm_head.weight'' \<mapsto> \<lparr> shape = [3, 2], data = [1, 4, 2, 5, 3, 6::nat] \<rparr>]] \<and>
   unflatten_linear_layers (apply_prefix None (Some ''lm_head''))
     ([[''lm_head.weight'' \<mapsto> \<lparr> shape = [3, 2], data = [1, 4, 2, 5, 3, 6] \<rparr>]] ! 0)
     (lm_head example_model_in_first) True
     = Inr [''lm_head.weight'' \<mapsto> \<lparr> shape = [2, 3], data = [1, 2, 3, 4, 5, 6] \<rparr>] \<and>
   fst (from_state_dict example_library example_model_in_first
          [[''lm_head.weight'' \<mapsto> \<lparr> shape = [3, 2], data = [1, 4, 2, 5, 3, 6] \<rparr>]] 0 None) ! 0
     = [''lm_head.weight'' \<mapsto> \<lparr> shape = [3, 2], data = [1, 4, 2, 5, 3, 6] \<rparr>] \<and>
   (fst (from_state_dict example_library example_model_in_first
          [[''lm_head.weight'' \<mapsto> \<lparr> shape = [3, 2], data = [1, 4, 2, 5, 3, 6] \<rparr>]] 0 None) ! 1)
     ''lm_head.weight'' = Some \<lparr> shape = [2, 3], data = [1, 2, 3, 4, 5, 6] \<rparr> \<and>
   length (fst (from_state_dict example_library example_model_in_first
          [[''lm_head.weight'' \<mapsto> \<lparr> shape = [3, 2], data = [1, 4, 2, 5, 3, 6] \<rparr>]] 0 None)) = 2"
proof -
  have u: "unflatten_linear_layers (apply_prefix None (Some ''lm_head''))
     ([[''lm_head.weight'' \<mapsto> \<lparr> shape = [3, 2], data = [1, 4, 2, 5, 3, 6::nat] \<rparr>]] ! 0)
     (lm_head example_model_in_first) True
     = Inr [''lm_head.weight'' \<mapsto> \<lparr> shape = [2, 3], data = [1, 2, 3, 4, 5, 6] \<rparr>]"
    by (simp add: unflatten_linear_layers_def lookup_def out_first_def example_model_in_first_def
        transpose_nd_def transpose2_def entry_def upt_rec)
  show ?thesis
    using from_state_dict_keeps_state_dict [of 0
        "[[''lm_head.weight'' \<mapsto> \<lparr> shape = [3, 2], data = [1, 4, 2, 5, 3, 6] \<rparr>]]"
        example_library example_model_in_first None] u
    by simp
qed

end
